theory Spec2Isabelle
  imports Main "HOL-Library.Word"
begin

unbundle bit_operations_syntax

section \<open>Machine types and constants\<close>

text \<open>
  The driver is C for an LP64 kernel: \<open>unsigned long\<close> is 64 bits, \<open>unsigned\<close> and
  \<open>dev_t\<close> are 32 bits, \<open>__u16\<close> and \<open>umode_t\<close> are 16 bits. Error codes are the
  negative integers the functions return.
\<close>

type_synonym u8 = "8 word"
type_synonym u16 = "16 word"
type_synonym u32 = "32 word"
type_synonym u64 = "64 word"

definition EIO :: int where "EIO = 5"
definition ENOMEM :: int where "ENOMEM = 12"
definition EINVAL :: int where "EINVAL = 22"

text \<open>\<open>BLOCK_SIZE\<close> is \<open>1 << 10\<close> (the comment at line 201 of inode.c says so).\<close>

definition BLOCK_SIZE :: nat where "BLOCK_SIZE = 1024"

text \<open>
  Modelled from the spec: the magic numbers are declared in a header that is not among
  the source files; the table of section 4.1 gives their values.
\<close>

definition MINIX_SUPER_MAGIC :: u16 where "MINIX_SUPER_MAGIC = 0x137F"
definition MINIX_SUPER_MAGIC2 :: u16 where "MINIX_SUPER_MAGIC2 = 0x138F"
definition MINIX2_SUPER_MAGIC :: u16 where "MINIX2_SUPER_MAGIC = 0x2468"
definition MINIX2_SUPER_MAGIC2 :: u16 where "MINIX2_SUPER_MAGIC2 = 0x2478"
definition MINIX3_SUPER_MAGIC :: u16 where "MINIX3_SUPER_MAGIC = 0x4D5A"

text \<open>
  Modelled from the spec: the remaining constants of the missing headers. The spec names
  the three versions, the two mount-state bits (VALID, ERROR), the root inode number 1
  and the two link ceilings; the numbers are the headers' own.
\<close>

definition MINIX_V1 :: u16 where "MINIX_V1 = 1"
definition MINIX_V2 :: u16 where "MINIX_V2 = 2"
definition MINIX_V3 :: u16 where "MINIX_V3 = 3"
definition MINIX_VALID_FS :: u16 where "MINIX_VALID_FS = 1"
definition MINIX_ERROR_FS :: u16 where "MINIX_ERROR_FS = 2"
definition MINIX_ROOT_INO :: u64 where "MINIX_ROOT_INO = 1"
definition MINIX_LINK_MAX :: nat where "MINIX_LINK_MAX = 250"
definition MINIX2_LINK_MAX :: nat where "MINIX2_LINK_MAX = 65530"
definition SB_RDONLY :: u32 where "SB_RDONLY = 1"

section \<open>Data model\<close>

subsection \<open>On-disk records\<close>

text \<open>
  The superblock as \<open>struct minix_super_block\<close> (V1 and V2) and as
  \<open>struct minix3_super_block\<close> show it; the field widths are those of section 6 of
  the spec. Field names carry the name of the pointer the code reads them through
  (\<open>ms->s_state\<close> is \<open>ms_s_state\<close>, \<open>m3s->s_zones\<close> is \<open>m3s_s_zones\<close>).
\<close>

record minix_super_block =
  ms_s_ninodes :: u16
  ms_s_nzones :: u16
  ms_s_imap_blocks :: u16
  ms_s_zmap_blocks :: u16
  ms_s_firstdatazone :: u16
  ms_s_log_zone_size :: u16
  ms_s_max_size :: u32
  ms_s_magic :: u16
  ms_s_state :: u16
  ms_s_zones :: u32

record minix3_super_block =
  m3s_s_ninodes :: u32
  m3s_s_imap_blocks :: u16
  m3s_s_zmap_blocks :: u16
  m3s_s_firstdatazone :: u16
  m3s_s_log_zone_size :: u16
  m3s_s_max_size :: u32
  m3s_s_zones :: u32
  m3s_s_magic :: u16
  m3s_s_blocksize :: u16

text \<open>
  The bytes of device block 1, seen through the three casts \<open>minix_fill_super\<close> applies to
  \<open>bh->b_data\<close>: as a V1/V2 superblock, as a V3 superblock, and as the 16-bit word at byte
  offset 24. The struct layouts are not among the sources, so the three views are taken
  as they come; nothing below assumes how they overlap.
\<close>

record sb_data =
  as_ms :: minix_super_block
  as_m3s :: minix3_super_block
  u16_at_24 :: u16

text \<open>Raw inodes: 32 bytes for V1, 64 bytes for V2 and V3 (the two \<open>BUILD_BUG_ON\<close>).\<close>

record minix_inode =
  r1_i_mode :: u16
  r1_i_uid :: u16
  r1_i_size :: u32
  r1_i_time :: u32
  r1_i_gid :: u8
  r1_i_nlinks :: u8
  r1_i_zone :: "u16 list"

record minix2_inode =
  r2_i_mode :: u16
  r2_i_nlinks :: u16
  r2_i_uid :: u16
  r2_i_gid :: u16
  r2_i_size :: u32
  r2_i_atime :: u32
  r2_i_mtime :: u32
  r2_i_ctime :: u32
  r2_i_zone :: "u32 list"

subsection \<open>Buffers\<close>

text \<open>
  A buffer head: the data it maps and the three state bits the driver tests or sets
  (\<open>buffer_dirty\<close>, \<open>buffer_req\<close>, \<open>buffer_uptodate\<close>). A bitmap block is read bit by
  bit: \<open>d n\<close> is bit \<open>n\<close> of the block.
\<close>

record b_state =
  BH_Dirty :: bool
  BH_Req :: bool
  BH_Uptodate :: bool

record 'd buffer_head =
  b_data :: 'd
  b_state :: b_state

type_synonym bitmap = "nat \<Rightarrow> bool"

definition buffer_dirty :: "'d buffer_head \<Rightarrow> bool" where
  "buffer_dirty bh = BH_Dirty (b_state bh)"

definition buffer_req :: "'d buffer_head \<Rightarrow> bool" where
  "buffer_req bh = BH_Req (b_state bh)"

definition buffer_uptodate :: "'d buffer_head \<Rightarrow> bool" where
  "buffer_uptodate bh = BH_Uptodate (b_state bh)"

definition mark_buffer_dirty :: "'d buffer_head \<Rightarrow> 'd buffer_head" where
  "mark_buffer_dirty bh = bh\<lparr>b_state := (b_state bh)\<lparr>BH_Dirty := True\<rparr>\<rparr>"

text \<open>
  Modelled from the spec: \<open>minix_set_bit\<close> is a macro of the missing minix.h; it sets
  one bit of a bitmap block in memory.
\<close>

definition minix_set_bit :: "nat \<Rightarrow> bitmap buffer_head \<Rightarrow> bitmap buffer_head" where
  "minix_set_bit nr bh = bh\<lparr>b_data := (b_data bh)(nr := True)\<rparr>"

definition minix_test_bit :: "nat \<Rightarrow> bitmap buffer_head \<Rightarrow> bool" where
  "minix_test_bit nr bh = b_data bh nr"

subsection \<open>In-memory inode\<close>

record timespec64 =
  tv_sec :: u64
  tv_nsec :: u64

text \<open>
  The operation set \<open>minix_set_inode\<close> installs (\<open>i_op\<close>, \<open>i_fop\<close>, \<open>a_ops\<close>), and
  the two members of the union \<open>u\<close> of \<open>struct minix_inode_info\<close>: sixteen 16-bit
  zone words for V1, sixteen 32-bit ones for V2 and V3. A volume keeps one version for
  its lifetime, so an inode is read and written through one member only; the two are
  kept as two fields and no theorem relies on the other member staying as it was.
  \<open>i_uid\<close> and \<open>i_gid\<close> hold the ids as \<open>i_uid_write\<close> takes them and \<open>i_uid_read\<close>
  gives them back.
\<close>

datatype inode_ops = no_ops | file_ops | dir_ops | symlink_ops | special_ops u32

record inode =
  i_ino :: u64
  i_mode :: u16
  i_uid :: u32
  i_gid :: u32
  i_nlink :: u32
  i_size :: u64
  i_mtime :: timespec64
  i_atime :: timespec64
  i_ctime :: timespec64
  i_blocks :: u64
  i_rdev :: u32
  i_ops :: inode_ops
  I_NEW :: bool
  i1_data :: "u16 list"
  i2_data :: "u32 list"

subsection \<open>Superblock in memory\<close>

text \<open>
  \<open>struct minix_sb_info\<close>. \<open>s_map\<close> is the one array \<open>minix_fill_super\<close> allocates:
  \<open>s_imap\<close> points at its entry 0 and \<open>s_zmap\<close> at its entry \<open>s_imap_blocks\<close>.
  \<open>s_ms\<close> points into the data of \<open>s_sbh\<close>, so it is read and written through it.
\<close>

record minix_sb_info =
  s_ninodes :: u64
  s_nzones :: u64
  s_imap_blocks :: u64
  s_zmap_blocks :: u64
  s_firstdatazone :: u64
  s_log_zone_size :: u64
  s_max_size :: u64
  s_dirsize :: int
  s_namelen :: int
  s_map :: "bitmap buffer_head option list"
  s_sbh :: "sb_data buffer_head"
  s_mount_state :: u16
  s_version :: u16

definition s_ms :: "minix_sb_info \<Rightarrow> minix_super_block" where
  "s_ms sbi = as_ms (b_data (s_sbh sbi))"

definition s_imap :: "minix_sb_info \<Rightarrow> nat \<Rightarrow> bitmap buffer_head option" where
  "s_imap sbi i = s_map sbi ! i"

definition s_zmap :: "minix_sb_info \<Rightarrow> nat \<Rightarrow> bitmap buffer_head option" where
  "s_zmap sbi i = s_map sbi ! (unat (s_imap_blocks sbi) + i)"

datatype super_operations = minix_sops

record super_block =
  s_blocksize :: nat
  s_magic :: u64
  s_max_links :: nat
  s_flags :: u32
  s_id :: string
  s_dev :: u32
  s_op :: "super_operations option"
  s_fs_info :: "minix_sb_info option"
  s_root :: "inode option"

definition sb_rdonly :: "super_block \<Rightarrow> bool" where
  "sb_rdonly sb = (s_flags sb AND SB_RDONLY \<noteq> 0)"

subsection \<open>The host\<close>

text \<open>
  What the driver calls and inode.c does not define: the allocator, the block layer,
  the inode cache of the VFS, the raw-inode readers and the bitmap counters of bitmap.c,
  and a few macros. Each is a field, so every theorem holds for whatever they do.
  \<open>sync_dirty_buffer\<close> gives the state bits of a buffer after the forced write,
  \<open>sync_filesystem\<close> the volume after its dirty data went out,
  \<open>shl_out_of_range\<close> what the machine makes of a left shift of an \<open>unsigned long\<close>
  by a count of 64 or more, which C leaves undefined, and
  the last two fields the results of \<open>kmem_cache_create\<close> and \<open>register_filesystem\<close>.
\<close>

datatype iget_result = iget_nomem | iget_found inode

record host =
  kzalloc_sbi :: bool
  kzalloc_map :: "nat \<Rightarrow> bool"
  set_blocksize :: "nat \<Rightarrow> bool"
  bread_super :: "nat \<Rightarrow> nat \<Rightarrow> sb_data buffer_head option"
  bread_bitmap :: "nat \<Rightarrow> nat \<Rightarrow> bitmap buffer_head option"
  iget_locked :: "u64 \<Rightarrow> iget_result"
  minix_V1_raw_inode :: "u64 \<Rightarrow> minix_inode buffer_head option"
  minix_V2_raw_inode :: "u64 \<Rightarrow> minix2_inode buffer_head option"
  old_decode_dev :: "u16 \<Rightarrow> u32"
  old_encode_dev :: "u32 \<Rightarrow> u16"
  fs_high2lowuid :: "u32 \<Rightarrow> u16"
  fs_high2lowgid :: "u32 \<Rightarrow> u16"
  d_make_root :: "inode \<Rightarrow> bool"
  sync_dirty_buffer :: "b_state \<Rightarrow> b_state"
  sync_filesystem :: "super_block \<Rightarrow> super_block"
  minix_count_free_blocks :: "super_block \<Rightarrow> u64"
  minix_count_free_inodes :: "super_block \<Rightarrow> u64"
  huge_encode_dev :: "u32 \<Rightarrow> u64"
  shl_out_of_range :: "u64 \<Rightarrow> u64 \<Rightarrow> u64"
  kmem_cache_create_ok :: bool
  register_filesystem_result :: int

section \<open>Reading an inode\<close>

text \<open>
  Modelled from the spec: the file-type tests behind section 4.2 (regular file,
  directory, symlink, character and block device). stat.h is not among the sources;
  the octal masks 0170000, 0100000, 0040000, 0120000, 0020000 and 0060000 are its own.
\<close>

definition S_IFMT :: u16 where "S_IFMT = 0xF000"
definition S_ISREG :: "u16 \<Rightarrow> bool" where "S_ISREG m = (m AND S_IFMT = 0x8000)"
definition S_ISDIR :: "u16 \<Rightarrow> bool" where "S_ISDIR m = (m AND S_IFMT = 0x4000)"
definition S_ISLNK :: "u16 \<Rightarrow> bool" where "S_ISLNK m = (m AND S_IFMT = 0xA000)"
definition S_ISCHR :: "u16 \<Rightarrow> bool" where "S_ISCHR m = (m AND S_IFMT = 0x2000)"
definition S_ISBLK :: "u16 \<Rightarrow> bool" where "S_ISBLK m = (m AND S_IFMT = 0x6000)"

text \<open>
  Modelled from the spec: \<open>init_special_inode\<close> belongs to the VFS; section 4.2 says it
  initialises a device, fifo or socket inode with the device number decoded from
  \<open>zone[0]\<close>.
\<close>

definition init_special_inode :: "inode \<Rightarrow> u16 \<Rightarrow> u32 \<Rightarrow> inode" where
  "init_special_inode inode mode rdev = inode\<lparr>i_mode := mode, i_ops := special_ops rdev\<rparr>"

definition minix_set_inode :: "inode \<Rightarrow> u32 \<Rightarrow> inode" where
  "minix_set_inode inode rdev =
     (if S_ISREG (i_mode inode) then inode\<lparr>i_ops := file_ops\<rparr>
      else if S_ISDIR (i_mode inode) then inode\<lparr>i_ops := dir_ops\<rparr>
      else if S_ISLNK (i_mode inode) then inode\<lparr>i_ops := symlink_ops\<rparr>
      else init_special_inode inode (i_mode inode) rdev)"

text \<open>The loop \<open>for (i = 0; i < n; i++) dst[i] = src[i];\<close> of both readers and writers.\<close>

definition copy_zones :: "nat \<Rightarrow> 'a list \<Rightarrow> 'a list \<Rightarrow> 'a list" where
  "copy_zones n src dst = foldl (\<lambda>d i. d[i := src ! i]) dst [0..<n]"

definition unlock_new_inode :: "inode \<Rightarrow> inode" where
  "unlock_new_inode inode = inode\<lparr>I_NEW := False\<rparr>"

text \<open>
  \<open>V1_minix_iget\<close> and \<open>V2_minix_iget\<close>: \<open>Inl\<close> carries the \<open>ERR_PTR\<close>. The 16- and
  32-bit fields of the raw record are zero-extended into the wider fields of the inode.
\<close>

definition V1_minix_iget :: "host \<Rightarrow> inode \<Rightarrow> int + inode" where
  "V1_minix_iget h inode =
     (case minix_V1_raw_inode h (i_ino inode) of
        None \<Rightarrow> Inl (- EIO)
      | Some bh \<Rightarrow>
          (let raw_inode = b_data bh;
               t = \<lparr>tv_sec = ucast (r1_i_time raw_inode), tv_nsec = 0\<rparr>;
               inode = inode\<lparr>i_mode := r1_i_mode raw_inode,
                             i_uid := ucast (r1_i_uid raw_inode),
                             i_gid := ucast (r1_i_gid raw_inode),
                             i_nlink := ucast (r1_i_nlinks raw_inode),
                             i_size := ucast (r1_i_size raw_inode),
                             i_mtime := t, i_atime := t, i_ctime := t,
                             i_blocks := 0,
                             i1_data := copy_zones 9 (r1_i_zone raw_inode) (i1_data inode)\<rparr>;
               inode = minix_set_inode inode (old_decode_dev h (r1_i_zone raw_inode ! 0))
           in Inr (unlock_new_inode inode)))"

definition V2_minix_iget :: "host \<Rightarrow> inode \<Rightarrow> int + inode" where
  "V2_minix_iget h inode =
     (case minix_V2_raw_inode h (i_ino inode) of
        None \<Rightarrow> Inl (- EIO)
      | Some bh \<Rightarrow>
          (let raw_inode = b_data bh;
               inode = inode\<lparr>i_mode := r2_i_mode raw_inode,
                             i_uid := ucast (r2_i_uid raw_inode),
                             i_gid := ucast (r2_i_gid raw_inode),
                             i_nlink := ucast (r2_i_nlinks raw_inode),
                             i_size := ucast (r2_i_size raw_inode),
                             i_mtime := \<lparr>tv_sec = ucast (r2_i_mtime raw_inode), tv_nsec = 0\<rparr>,
                             i_atime := \<lparr>tv_sec = ucast (r2_i_atime raw_inode), tv_nsec = 0\<rparr>,
                             i_ctime := \<lparr>tv_sec = ucast (r2_i_ctime raw_inode), tv_nsec = 0\<rparr>,
                             i_blocks := 0,
                             i2_data := copy_zones 10 (r2_i_zone raw_inode) (i2_data inode)\<rparr>;
               inode = minix_set_inode inode
                         (old_decode_dev h (ucast (r2_i_zone raw_inode ! 0)))
           in Inr (unlock_new_inode inode)))"

text \<open>\<open>INODE_VERSION(inode)\<close> is the version of the inode's volume.\<close>

definition minix_iget :: "host \<Rightarrow> minix_sb_info \<Rightarrow> u64 \<Rightarrow> int + inode" where
  "minix_iget h sbi ino =
     (case iget_locked h ino of
        iget_nomem \<Rightarrow> Inl (- ENOMEM)
      | iget_found inode \<Rightarrow>
          if \<not> I_NEW inode then Inr inode
          else if s_version sbi = MINIX_V1 then V1_minix_iget h inode
          else V2_minix_iget h inode)"

section \<open>Mount\<close>

text \<open>
  Modelled from the spec: \<open>sb_set_blocksize\<close> belongs to the block layer. It asks the
  device for the size; when the device refuses it returns 0 and leaves the superblock as
  it was, otherwise it records the size and returns it.
\<close>

definition sb_set_blocksize :: "host \<Rightarrow> super_block \<Rightarrow> nat \<Rightarrow> nat \<times> super_block" where
  "sb_set_blocksize h s sz =
     (if set_blocksize h sz then (sz, s\<lparr>s_blocksize := sz\<rparr>) else (0, s))"

text \<open>
  Modelled from the spec: \<open>minix_blocks_needed\<close> is an inline helper of the missing
  minix.h. Section 4.1 gives what it returns: the number of bitmap blocks needed for
  \<open>bits\<close> bits, the quotient of \<open>bits\<close> by the bits of one block, rounded up. A block
  size of zero has no quotient; what is proved of the checks is for a block size that is
  not zero.
\<close>

definition minix_blocks_needed :: "nat \<Rightarrow> nat \<Rightarrow> nat" where
  "minix_blocks_needed bits blocksize = (bits + blocksize * 8 - 1) div (blocksize * 8)"

text \<open>
  The exits of \<open>minix_fill_super\<close>, by the label the code jumps to; \<open>no_sbi\<close> is the
  return at line 191. A failed mount is the label with the value returned;
  \<open>null_dereference\<close> is the fault of reading through a null map entry.
\<close>

datatype label =
  no_sbi | out_bad_hblock | out_bad_sb | out_no_fs | out_illegal_sb | out_no_map
  | out_no_bitmap | out_no_root

datatype mount_error = failed label int | null_dereference

text \<open>
  Lines 210 to 220: the zeroed \<open>sbi\<close> takes the buffer and the fields of its V1/V2 view.
\<close>

definition sbi_of_ms :: "sb_data buffer_head \<Rightarrow> minix_sb_info" where
  "sbi_of_ms bh =
     (let ms = as_ms (b_data bh)
      in \<lparr>s_ninodes = ucast (ms_s_ninodes ms),
          s_nzones = ucast (ms_s_nzones ms),
          s_imap_blocks = ucast (ms_s_imap_blocks ms),
          s_zmap_blocks = ucast (ms_s_zmap_blocks ms),
          s_firstdatazone = ucast (ms_s_firstdatazone ms),
          s_log_zone_size = ucast (ms_s_log_zone_size ms),
          s_max_size = ucast (ms_s_max_size ms),
          s_dirsize = 0, s_namelen = 0, s_map = [], s_sbh = bh,
          s_mount_state = ms_s_state ms, s_version = 0\<rparr>)"

text \<open>Lines 247 to 257: the V3 branch takes every field again from the V3 view.\<close>

definition sbi_of_m3s :: "minix_sb_info \<Rightarrow> minix3_super_block \<Rightarrow> minix_sb_info" where
  "sbi_of_m3s sbi m3s =
     sbi\<lparr>s_imap_blocks := ucast (m3s_s_imap_blocks m3s),
         s_zmap_blocks := ucast (m3s_s_zmap_blocks m3s),
         s_firstdatazone := ucast (m3s_s_firstdatazone m3s),
         s_log_zone_size := ucast (m3s_s_log_zone_size m3s),
         s_max_size := ucast (m3s_s_max_size m3s),
         s_ninodes := ucast (m3s_s_ninodes m3s),
         s_nzones := ucast (m3s_s_zones m3s),
         s_dirsize := 64, s_namelen := 60,
         s_version := MINIX_V3,
         s_mount_state := MINIX_VALID_FS\<rparr>"

text \<open>
  Lines 221 to 261: the magic decides. \<open>None\<close> is \<open>goto out_no_fs\<close>. The result of the
  second \<open>sb_set_blocksize\<close> (line 258) is dropped, as in the code.
\<close>

definition read_super_fields ::
  "host \<Rightarrow> super_block \<Rightarrow> sb_data buffer_head \<Rightarrow> (minix_sb_info \<times> super_block) option" where
  "read_super_fields h s bh =
     (let ms = as_ms (b_data bh);
          sbi = sbi_of_ms bh;
          s = s\<lparr>s_magic := ucast (ms_s_magic ms)\<rparr>
      in if s_magic s = ucast MINIX_SUPER_MAGIC then
           Some (sbi\<lparr>s_version := MINIX_V1, s_dirsize := 16, s_namelen := 14\<rparr>,
                 s\<lparr>s_max_links := MINIX_LINK_MAX\<rparr>)
         else if s_magic s = ucast MINIX_SUPER_MAGIC2 then
           Some (sbi\<lparr>s_version := MINIX_V1, s_dirsize := 32, s_namelen := 30\<rparr>,
                 s\<lparr>s_max_links := MINIX_LINK_MAX\<rparr>)
         else if s_magic s = ucast MINIX2_SUPER_MAGIC then
           Some (sbi\<lparr>s_version := MINIX_V2, s_nzones := ucast (ms_s_zones ms),
                     s_dirsize := 16, s_namelen := 14\<rparr>,
                 s\<lparr>s_max_links := MINIX2_LINK_MAX\<rparr>)
         else if s_magic s = ucast MINIX2_SUPER_MAGIC2 then
           Some (sbi\<lparr>s_version := MINIX_V2, s_nzones := ucast (ms_s_zones ms),
                     s_dirsize := 32, s_namelen := 30\<rparr>,
                 s\<lparr>s_max_links := MINIX2_LINK_MAX\<rparr>)
         else if u16_at_24 (b_data bh) = MINIX3_SUPER_MAGIC then
           (let m3s = as_m3s (b_data bh);
                s = s\<lparr>s_magic := ucast (m3s_s_magic m3s)\<rparr>;
                sbi = sbi_of_m3s sbi m3s;
                s = snd (sb_set_blocksize h s (unat (m3s_s_blocksize m3s)))
            in Some (sbi, s\<lparr>s_max_links := MINIX2_LINK_MAX\<rparr>))
         else None)"

text \<open>
  The two loops of lines 277 to 286, one call each: \<open>n\<close> blocks are read from device
  block \<open>block\<close> on into the entries \<open>base\<close>, \<open>base + 1\<close>, ... of the map. \<open>None\<close> is
  \<open>goto out_no_bitmap\<close>; otherwise the map and the next block number come back.
\<close>

function read_bitmaps ::
  "host \<Rightarrow> super_block \<Rightarrow> nat \<Rightarrow> nat \<Rightarrow> nat \<Rightarrow> nat \<Rightarrow> bitmap buffer_head option list
     \<Rightarrow> (bitmap buffer_head option list \<times> nat) option" where
  "read_bitmaps h s base n i block m =
     (if i < n then
        (case bread_bitmap h (s_blocksize s) block of
           None \<Rightarrow> None
         | Some bh \<Rightarrow> read_bitmaps h s base n (i + 1) (block + 1) (m[base + i := Some bh]))
      else Some (m, block))"
  by pat_completeness auto
termination
  by (relation "measure (\<lambda>(h, s, base, n, i, block, m). n - i)") auto

declare read_bitmaps.simps [simp del]

text \<open>
  \<open>minix_set_bit(0, map[k]->b_data)\<close>. \<open>None\<close> is the dereference of a null entry.
\<close>

definition set_bit0 ::
  "nat \<Rightarrow> bitmap buffer_head option list \<Rightarrow> bitmap buffer_head option list option" where
  "set_bit0 k m =
     (case m ! k of None \<Rightarrow> None | Some bh \<Rightarrow> Some (m[k := Some (minix_set_bit 0 bh)]))"

text \<open>
  Lines 267 to 289: the zero check, the map, the bitmap blocks, the two reserved bits.
  The result is the filled map; \<open>s_imap\<close> and \<open>s_zmap\<close> point into it.
\<close>

definition read_both_bitmaps ::
  "host \<Rightarrow> super_block \<Rightarrow> nat \<Rightarrow> nat \<Rightarrow> bitmap buffer_head option list
     \<Rightarrow> bitmap buffer_head option list option" where
  "read_both_bitmaps h s ni nz m =
     (case read_bitmaps h s 0 ni 0 2 m of
        None \<Rightarrow> None
      | Some (m, block) \<Rightarrow>
          (case read_bitmaps h s ni nz 0 block m of
             None \<Rightarrow> None
           | Some (m, block) \<Rightarrow> Some m))"

definition reserve_bit0 ::
  "nat \<Rightarrow> bitmap buffer_head option list \<Rightarrow> bitmap buffer_head option list option" where
  "reserve_bit0 ni m = (case set_bit0 0 m of None \<Rightarrow> None | Some m \<Rightarrow> set_bit0 ni m)"

definition load_bitmaps ::
  "host \<Rightarrow> super_block \<Rightarrow> minix_sb_info \<Rightarrow> mount_error + bitmap buffer_head option list" where
  "load_bitmaps h s sbi =
     (if s_imap_blocks sbi = 0 \<or> s_zmap_blocks sbi = 0 then
        Inl (failed out_illegal_sb (- EINVAL))
      else
        (let i = (s_imap_blocks sbi + s_zmap_blocks sbi) * 8 in
         if \<not> kzalloc_map h (unat i) then Inl (failed out_no_map (- ENOMEM))
         else
           (let m = replicate (unat (s_imap_blocks sbi + s_zmap_blocks sbi)) None in
            case read_both_bitmaps h s (unat (s_imap_blocks sbi))
                   (unat (s_zmap_blocks sbi)) m of
              None \<Rightarrow> Inl (failed out_no_bitmap (- EINVAL))
            | Some m \<Rightarrow>
                (case reserve_bit0 (unat (s_imap_blocks sbi)) m of
                   None \<Rightarrow> Inl null_dereference
                 | Some m \<Rightarrow> Inr m))))"

text \<open>Lines 299 to 315: the two sufficiency checks; \<open>False\<close> is \<open>goto out_no_bitmap\<close>.\<close>

definition imap_blocks_needed :: "super_block \<Rightarrow> minix_sb_info \<Rightarrow> nat" where
  "imap_blocks_needed s sbi = minix_blocks_needed (unat (s_ninodes sbi)) (s_blocksize s)"

definition zmap_blocks_needed :: "super_block \<Rightarrow> minix_sb_info \<Rightarrow> nat" where
  "zmap_blocks_needed s sbi =
     minix_blocks_needed (unat (s_nzones sbi - s_firstdatazone sbi + 1)) (s_blocksize s)"

definition enough_bitmap_blocks :: "super_block \<Rightarrow> minix_sb_info \<Rightarrow> bool" where
  "enough_bitmap_blocks s sbi =
     (if unat (s_imap_blocks sbi) < imap_blocks_needed s sbi then False
      else if unat (s_zmap_blocks sbi) < zmap_blocks_needed s sbi then False
      else True)"

text \<open>
  Lines 320 to 344: the root inode, the root dentry, and on a writable mount the VALID
  bit cleared on disk (not for V3) and the superblock buffer dirtied.
\<close>

definition clear_valid :: "sb_data buffer_head \<Rightarrow> sb_data buffer_head" where
  "clear_valid bh =
     bh\<lparr>b_data := (b_data bh)\<lparr>as_ms := (as_ms (b_data bh))
        \<lparr>ms_s_state := ms_s_state (as_ms (b_data bh)) AND NOT MINIX_VALID_FS\<rparr>\<rparr>\<rparr>"

definition mounted_sbh :: "bool \<Rightarrow> minix_sb_info \<Rightarrow> sb_data buffer_head" where
  "mounted_sbh rdonly sbi =
     (if \<not> rdonly then
        mark_buffer_dirty
          (if s_version sbi \<noteq> MINIX_V3 then clear_valid (s_sbh sbi) else s_sbh sbi)
      else s_sbh sbi)"

definition mount_root ::
  "host \<Rightarrow> super_block \<Rightarrow> minix_sb_info \<Rightarrow> mount_error + super_block" where
  "mount_root h s sbi =
     (let s = s\<lparr>s_op := Some minix_sops\<rparr> in
      case minix_iget h sbi MINIX_ROOT_INO of
        Inl e \<Rightarrow> Inl (failed out_no_root e)
      | Inr root_inode \<Rightarrow>
          if \<not> d_make_root h root_inode then Inl (failed out_no_root (- ENOMEM))
          else
            (let s = s\<lparr>s_root := Some root_inode\<rparr>;
                 sbi = sbi\<lparr>s_sbh := mounted_sbh (sb_rdonly s) sbi\<rparr>
             in Inr (s\<lparr>s_fs_info := Some sbi\<rparr>)))"

text \<open>
  \<open>minix_fill_super\<close>. \<open>Inr\<close> is the return of 0 with the superblock filled in, the
  mounted volume; every other exit leaves \<open>s_fs_info\<close> null and returns its error.
\<close>

definition minix_fill_super :: "host \<Rightarrow> super_block \<Rightarrow> mount_error + super_block" where
  "minix_fill_super h s =
     (if \<not> kzalloc_sbi h then Inl (failed no_sbi (- ENOMEM))
      else
        (case sb_set_blocksize h s BLOCK_SIZE of
           (r, s) \<Rightarrow>
             if r = 0 then Inl (failed out_bad_hblock (- EINVAL))
             else
               (case bread_super h (s_blocksize s) 1 of
                  None \<Rightarrow> Inl (failed out_bad_sb (- EINVAL))
                | Some bh \<Rightarrow>
                    (case read_super_fields h s bh of
                       None \<Rightarrow> Inl (failed out_no_fs (- EINVAL))
                     | Some (sbi, s) \<Rightarrow>
                         (case load_bitmaps h s sbi of
                            Inl e \<Rightarrow> Inl e
                          | Inr m \<Rightarrow>
                              if \<not> enough_bitmap_blocks s (sbi\<lparr>s_map := m\<rparr>) then
                                Inl (failed out_no_bitmap (- EINVAL))
                              else mount_root h s (sbi\<lparr>s_map := m\<rparr>))))))"

section \<open>Writing an inode back\<close>

text \<open>
  \<open>V1_minix_update_inode\<close> and \<open>V2_minix_update_inode\<close>: \<open>None\<close> is the \<open>NULL\<close> returned
  when the raw record cannot be read. Assignments to narrower fields truncate. For a
  character or block device only \<open>i_zone[0]\<close> is written.
\<close>

definition V1_minix_update_inode :: "host \<Rightarrow> inode \<Rightarrow> minix_inode buffer_head option" where
  "V1_minix_update_inode h inode =
     (case minix_V1_raw_inode h (i_ino inode) of
        None \<Rightarrow> None
      | Some bh \<Rightarrow>
          (let raw_inode = b_data bh;
               raw_inode = raw_inode\<lparr>r1_i_mode := i_mode inode,
                                     r1_i_uid := fs_high2lowuid h (i_uid inode),
                                     r1_i_gid := ucast (fs_high2lowgid h (i_gid inode)),
                                     r1_i_nlinks := ucast (i_nlink inode),
                                     r1_i_size := ucast (i_size inode),
                                     r1_i_time := ucast (tv_sec (i_mtime inode))\<rparr>;
               raw_inode =
                 (if S_ISCHR (i_mode inode) \<or> S_ISBLK (i_mode inode) then
                    raw_inode\<lparr>r1_i_zone :=
                      (r1_i_zone raw_inode)[0 := old_encode_dev h (i_rdev inode)]\<rparr>
                  else
                    raw_inode\<lparr>r1_i_zone :=
                      copy_zones 9 (i1_data inode) (r1_i_zone raw_inode)\<rparr>)
           in Some (mark_buffer_dirty (bh\<lparr>b_data := raw_inode\<rparr>))))"

definition V2_minix_update_inode :: "host \<Rightarrow> inode \<Rightarrow> minix2_inode buffer_head option" where
  "V2_minix_update_inode h inode =
     (case minix_V2_raw_inode h (i_ino inode) of
        None \<Rightarrow> None
      | Some bh \<Rightarrow>
          (let raw_inode = b_data bh;
               raw_inode = raw_inode\<lparr>r2_i_mode := i_mode inode,
                                     r2_i_uid := fs_high2lowuid h (i_uid inode),
                                     r2_i_gid := fs_high2lowgid h (i_gid inode),
                                     r2_i_nlinks := ucast (i_nlink inode),
                                     r2_i_size := ucast (i_size inode),
                                     r2_i_mtime := ucast (tv_sec (i_mtime inode)),
                                     r2_i_atime := ucast (tv_sec (i_atime inode)),
                                     r2_i_ctime := ucast (tv_sec (i_ctime inode))\<rparr>;
               raw_inode =
                 (if S_ISCHR (i_mode inode) \<or> S_ISBLK (i_mode inode) then
                    raw_inode\<lparr>r2_i_zone :=
                      (r2_i_zone raw_inode)[0 := ucast (old_encode_dev h (i_rdev inode))]\<rparr>
                  else
                    raw_inode\<lparr>r2_i_zone :=
                      copy_zones 10 (i2_data inode) (r2_i_zone raw_inode)\<rparr>)
           in Some (mark_buffer_dirty (bh\<lparr>b_data := raw_inode\<rparr>))))"

text \<open>
  A \<open>printk\<close> is its format with its arguments. Only the message of
  \<open>minix_write_inode\<close> is kept; the other messages of the file are not modelled.
\<close>

datatype printk_arg = arg_s string | arg_lx u64

type_synonym message = "string \<times> printk_arg list"

datatype wb_sync_mode = WB_SYNC_NONE | WB_SYNC_ALL

record writeback_control =
  sync_mode :: wb_sync_mode

text \<open>
  Lines 679 to 688 of \<open>minix_write_inode\<close>, the same for both versions: the error, the
  messages printed, and the buffer as \<open>brelse\<close> gives it back.
\<close>

definition sync_inode_buffer ::
  "host \<Rightarrow> super_block \<Rightarrow> inode \<Rightarrow> writeback_control \<Rightarrow> 'd buffer_head
     \<Rightarrow> int \<times> message list \<times> 'd buffer_head" where
  "sync_inode_buffer h sb inode wbc bh =
     (if sync_mode wbc = WB_SYNC_ALL \<and> buffer_dirty bh then
        (let bh = bh\<lparr>b_state := sync_dirty_buffer h (b_state bh)\<rparr> in
         if buffer_req bh \<and> \<not> buffer_uptodate bh then
           (- EIO,
            [(''IO error syncing minix inode [%s:%08lx]'' @ [CHR 0x0A],
              [arg_s (s_id sb), arg_lx (i_ino inode)])],
            bh)
         else (0, [], bh))
      else (0, [], bh))"

datatype raw_buffer = V1_raw "minix_inode buffer_head" | V2_raw "minix2_inode buffer_head"

text \<open>
  \<open>minix_write_inode\<close>; \<open>sb\<close> is \<open>inode->i_sb\<close> and \<open>sbi\<close> its \<open>minix_sb\<close>. The third
  component is the buffer written, none when the raw record could not be read.
\<close>

definition minix_write_inode ::
  "host \<Rightarrow> super_block \<Rightarrow> minix_sb_info \<Rightarrow> inode \<Rightarrow> writeback_control
     \<Rightarrow> int \<times> message list \<times> raw_buffer option" where
  "minix_write_inode h sb sbi inode wbc =
     (if s_version sbi = MINIX_V1 then
        (case V1_minix_update_inode h inode of
           None \<Rightarrow> (- EIO, [], None)
         | Some bh \<Rightarrow>
             (case sync_inode_buffer h sb inode wbc bh of
                (err, msgs, bh) \<Rightarrow> (err, msgs, Some (V1_raw bh))))
      else
        (case V2_minix_update_inode h inode of
           None \<Rightarrow> (- EIO, [], None)
         | Some bh \<Rightarrow>
             (case sync_inode_buffer h sb inode wbc bh of
                (err, msgs, bh) \<Rightarrow> (err, msgs, Some (V2_raw bh)))))"

section \<open>Remount\<close>

definition set_s_state :: "u16 \<Rightarrow> minix_sb_info \<Rightarrow> minix_sb_info" where
  "set_s_state v sbi =
     sbi\<lparr>s_sbh := (s_sbh sbi)\<lparr>b_data := (b_data (s_sbh sbi))
            \<lparr>as_ms := (as_ms (b_data (s_sbh sbi)))\<lparr>ms_s_state := v\<rparr>\<rparr>\<rparr>\<rparr>"

definition dirty_sbh :: "minix_sb_info \<Rightarrow> minix_sb_info" where
  "dirty_sbh sbi = sbi\<lparr>s_sbh := mark_buffer_dirty (s_sbh sbi)\<rparr>"

text \<open>
  \<open>minix_remount\<close>: the value returned and the volume afterwards. \<open>None\<close> is the fault
  of a volume without its \<open>s_fs_info\<close>. The function leaves \<open>s_flags\<close> to its caller.
\<close>

definition minix_remount :: "host \<Rightarrow> super_block \<Rightarrow> u32 \<Rightarrow> (int \<times> super_block) option" where
  "minix_remount h sb flags =
     (let sb = sync_filesystem h sb in
      case s_fs_info sb of
        None \<Rightarrow> None
      | Some sbi \<Rightarrow>
          (let ms = s_ms sbi in
           if (flags AND SB_RDONLY \<noteq> 0) = sb_rdonly sb then Some (0, sb)
           else if flags AND SB_RDONLY \<noteq> 0 then
             (if ms_s_state ms AND MINIX_VALID_FS \<noteq> 0
                 \<or> \<not> (s_mount_state sbi AND MINIX_VALID_FS \<noteq> 0) then Some (0, sb)
              else
                (let sbi = (if s_version sbi \<noteq> MINIX_V3
                            then set_s_state (s_mount_state sbi) sbi else sbi);
                     sbi = dirty_sbh sbi
                 in Some (0, sb\<lparr>s_fs_info := Some sbi\<rparr>)))
           else
             (let sbi = (if s_version sbi \<noteq> MINIX_V3 then
                           set_s_state (ms_s_state ms AND NOT MINIX_VALID_FS)
                             (sbi\<lparr>s_mount_state := ms_s_state ms\<rparr>)
                         else sbi\<lparr>s_mount_state := MINIX_VALID_FS\<rparr>);
                  sbi = dirty_sbh sbi
              in Some (0, sb\<lparr>s_fs_info := Some sbi\<rparr>))))"

section \<open>Eviction\<close>

text \<open>
  The calls \<open>minix_evict_inode\<close> makes out of this file, in order, each with the inode it
  is given where the inode matters. The walkers \<open>V1_minix_truncate\<close> and
  \<open>V2_minix_truncate\<close> and \<open>minix_free_inode\<close> live in files that are not among the
  sources; none of the calls changes the link count the function tests twice.
\<close>

datatype event =
  truncate_inode_pages_final | V1_minix_truncate inode | V2_minix_truncate inode
  | invalidate_inode_buffers | clear_inode | minix_free_inode inode
  | write_inode | drop_entry

definition minix_truncate :: "minix_sb_info \<Rightarrow> inode \<Rightarrow> event list" where
  "minix_truncate sbi inode =
     (if \<not> (S_ISREG (i_mode inode) \<or> S_ISDIR (i_mode inode) \<or> S_ISLNK (i_mode inode)) then []
      else if s_version sbi = MINIX_V1 then [V1_minix_truncate inode]
      else [V2_minix_truncate inode])"

definition minix_evict_inode :: "minix_sb_info \<Rightarrow> inode \<Rightarrow> inode \<times> event list" where
  "minix_evict_inode sbi inode =
     (let tr = [truncate_inode_pages_final];
          inode = (if i_nlink inode = 0 then inode\<lparr>i_size := 0\<rparr> else inode);
          tr = (if i_nlink inode = 0 then tr @ minix_truncate sbi inode else tr);
          tr = tr @ [invalidate_inode_buffers, clear_inode];
          tr = (if i_nlink inode = 0 then tr @ [minix_free_inode inode] else tr)
      in (inode, tr))"

text \<open>
  Modelled from the spec: the side of an eviction that belongs to the inode cache of the
  VFS, whose file is not among the sources. Section 3 says that an inode with links is
  written back if dirty, and that the entry is dropped at the end; the callback
  \<open>minix_evict_inode\<close> runs in between. \<open>clear_inode\<close>, inside the callback, marks the
  inode as cleared; the entry leaves the cache when the callback has returned.
\<close>

definition vfs_evict :: "minix_sb_info \<Rightarrow> bool \<Rightarrow> inode \<Rightarrow> inode \<times> event list" where
  "vfs_evict sbi dirty inode =
     (let before = (if i_nlink inode \<noteq> 0 \<and> dirty then [write_inode] else [])
      in case minix_evict_inode sbi inode of
           (inode, tr) \<Rightarrow> (inode, before @ tr @ [drop_entry]))"

section \<open>Statfs\<close>

record kstatfs =
  f_type :: u64
  f_bsize :: u64
  f_blocks :: u64
  f_bfree :: u64
  f_bavail :: u64
  f_files :: u64
  f_ffree :: u64
  f_namelen :: int
  f_fsid :: "u32 \<times> u32"

text \<open>
  The left shift of line 399: both operands are \<open>unsigned long\<close>, 64 bits wide. C
  defines the shift for a count below 64 only. \<open>s_log_zone_size\<close> comes from a 16-bit
  field of the disk that the mount does not check (lines 219 and 250), so a larger count
  can reach the shift; the result is then whatever the machine makes of it.
\<close>

definition shl_ulong :: "host \<Rightarrow> u64 \<Rightarrow> u64 \<Rightarrow> u64" where
  "shl_ulong h x n = (if unat n < 64 then push_bit (unat n) x else shl_out_of_range h x n)"

text \<open>
  \<open>minix_statfs\<close>; \<open>None\<close> is the fault of a volume without its \<open>s_fs_info\<close>.
\<close>

definition minix_statfs :: "host \<Rightarrow> super_block \<Rightarrow> kstatfs option" where
  "minix_statfs h sb =
     (case s_fs_info sb of
        None \<Rightarrow> None
      | Some sbi \<Rightarrow>
          (let id = huge_encode_dev h (s_dev sb);
               bfree = minix_count_free_blocks h sb
           in Some \<lparr>f_type = s_magic sb,
                     f_bsize = of_nat (s_blocksize sb),
                     f_blocks = shl_ulong h (s_nzones sbi - s_firstdatazone sbi)
                                  (s_log_zone_size sbi),
                     f_bfree = bfree,
                     f_bavail = bfree,
                     f_files = s_ninodes sbi,
                     f_ffree = minix_count_free_inodes h sb,
                     f_namelen = s_namelen sbi,
                     f_fsid = (ucast id, ucast (drop_bit 32 id))\<rparr>))"

section \<open>Module initialisation\<close>

text \<open>
  What the module owns: the inode cache (\<open>minix_inode_cachep\<close>, here whether it exists)
  and the registration of \<open>minix_fs_type\<close> with the VFS.
\<close>

record module_state =
  minix_inode_cachep :: bool
  minix_fs_type_registered :: bool

definition init_inodecache :: "host \<Rightarrow> module_state \<Rightarrow> int \<times> module_state" where
  "init_inodecache h st =
     (if kmem_cache_create_ok h then (0, st\<lparr>minix_inode_cachep := True\<rparr>)
      else (- ENOMEM, st\<lparr>minix_inode_cachep := False\<rparr>))"

definition destroy_inodecache :: "module_state \<Rightarrow> module_state" where
  "destroy_inodecache st = st\<lparr>minix_inode_cachep := False\<rparr>"

text \<open>
  Modelled from the spec: \<open>register_filesystem\<close> belongs to the VFS. It returns 0 and
  the type is registered, or it returns an error and nothing changes.
\<close>

definition register_filesystem :: "host \<Rightarrow> module_state \<Rightarrow> int \<times> module_state" where
  "register_filesystem h st =
     (let r = register_filesystem_result h
      in (r, if r = 0 then st\<lparr>minix_fs_type_registered := True\<rparr> else st))"

text \<open>
  \<open>init_minix_fs\<close>: after \<open>register_filesystem\<close> the code reaches \<open>goto out\<close> whatever
  the result (no \<open>if\<close> guards it); the \<open>return 0\<close> behind it is never reached.
\<close>

definition init_minix_fs :: "host \<Rightarrow> module_state \<Rightarrow> int \<times> module_state" where
  "init_minix_fs h st =
     (case init_inodecache h st of
        (err, st) \<Rightarrow>
          if err \<noteq> 0 then (err, st)
          else
            (case register_filesystem h st of
               (err, st) \<Rightarrow> (err, destroy_inodecache st)))"

section \<open>Concrete hosts and volumes\<close>

text \<open>
  A host on which every read fails, and a module that is not loaded; the concrete hosts
  below are variations of it. Its shift by a count of 64 or more takes the count modulo
  64, as the shift instruction of x86-64 does.
\<close>

definition quiet_host :: host where
  "quiet_host =
     \<lparr>kzalloc_sbi = True, kzalloc_map = (\<lambda>n. True), set_blocksize = (\<lambda>sz. sz = 1024),
      bread_super = (\<lambda>bs blk. None), bread_bitmap = (\<lambda>bs blk. None),
      iget_locked = (\<lambda>ino. iget_nomem),
      minix_V1_raw_inode = (\<lambda>ino. None), minix_V2_raw_inode = (\<lambda>ino. None),
      old_decode_dev = (\<lambda>v. ucast v), old_encode_dev = (\<lambda>d. ucast d),
      fs_high2lowuid = (\<lambda>u. ucast u), fs_high2lowgid = (\<lambda>g. ucast g),
      d_make_root = (\<lambda>i. True),
      sync_dirty_buffer = (\<lambda>b. b\<lparr>BH_Dirty := False, BH_Req := True\<rparr>),
      sync_filesystem = (\<lambda>sb. sb),
      minix_count_free_blocks = (\<lambda>sb. 0), minix_count_free_inodes = (\<lambda>sb. 0),
      huge_encode_dev = (\<lambda>d. ucast d),
      shl_out_of_range = (\<lambda>x n. push_bit (unat n mod 64) x),
      kmem_cache_create_ok = True, register_filesystem_result = 0\<rparr>"

definition unloaded :: module_state where
  "unloaded = \<lparr>minix_inode_cachep = False, minix_fs_type_registered = False\<rparr>"

text \<open>
  The first scenario of section 8 of the spec: a clean V1 volume with 1024-byte blocks,
  magic 0x137F, 16 inodes, 64 zones, one block for each bitmap, first data zone 3. On
  disk both bitmaps are all zero, bit 0 included. The root inode is a directory.
\<close>

definition clean_state :: b_state where
  "clean_state = \<lparr>BH_Dirty = False, BH_Req = True, BH_Uptodate = True\<rparr>"

definition clean_v1_ms :: minix_super_block where
  "clean_v1_ms =
     \<lparr>ms_s_ninodes = 16, ms_s_nzones = 64, ms_s_imap_blocks = 1, ms_s_zmap_blocks = 1,
      ms_s_firstdatazone = 3, ms_s_log_zone_size = 0, ms_s_max_size = 0x10081C00,
      ms_s_magic = 0x137F, ms_s_state = 1, ms_s_zones = 0\<rparr>"

text \<open>
  One block of bytes under the three casts. By the little-endian layouts of the kernel's
  \<open>struct minix_super_block\<close> and \<open>struct minix3_super_block\<close> the V3 fields lie over the
  V1/V2 fields as written here; the 16-bit words at byte offsets 24 and 28 lie behind
  them. Only the concrete volumes are built this way: the theorems hold for any views.
\<close>

definition m3s_of_bytes :: "minix_super_block \<Rightarrow> u16 \<Rightarrow> u16 \<Rightarrow> minix3_super_block" where
  "m3s_of_bytes ms w24 w28 =
     \<lparr>m3s_s_ninodes = ucast (ms_s_ninodes ms) OR push_bit 16 (ucast (ms_s_nzones ms)),
      m3s_s_imap_blocks = ms_s_zmap_blocks ms,
      m3s_s_zmap_blocks = ms_s_firstdatazone ms,
      m3s_s_firstdatazone = ms_s_log_zone_size ms,
      m3s_s_log_zone_size = ucast (ms_s_max_size ms),
      m3s_s_max_size = ucast (ms_s_magic ms) OR push_bit 16 (ucast (ms_s_state ms)),
      m3s_s_zones = ms_s_zones ms,
      m3s_s_magic = w24,
      m3s_s_blocksize = w28\<rparr>"

definition block1 :: "minix_super_block \<Rightarrow> u16 \<Rightarrow> u16 \<Rightarrow> sb_data buffer_head" where
  "block1 ms w24 w28 =
     \<lparr>b_data = \<lparr>as_ms = ms, as_m3s = m3s_of_bytes ms w24 w28, u16_at_24 = w24\<rparr>,
      b_state = clean_state\<rparr>"

definition clean_v1_super :: "sb_data buffer_head" where
  "clean_v1_super = block1 clean_v1_ms 0 0"

definition zero_bitmap :: "bitmap buffer_head" where
  "zero_bitmap = \<lparr>b_data = (\<lambda>n. False), b_state = clean_state\<rparr>"

definition root_raw :: "minix_inode buffer_head" where
  "root_raw =
     \<lparr>b_data = \<lparr>r1_i_mode = 0x41ED, r1_i_uid = 0, r1_i_size = 32, r1_i_time = 0,
                 r1_i_gid = 0, r1_i_nlinks = 2, r1_i_zone = [3, 0, 0, 0, 0, 0, 0, 0, 0]\<rparr>,
      b_state = clean_state\<rparr>"

definition fresh_inode :: "u64 \<Rightarrow> inode" where
  "fresh_inode ino =
     \<lparr>i_ino = ino, i_mode = 0, i_uid = 0, i_gid = 0, i_nlink = 1, i_size = 0,
      i_mtime = \<lparr>tv_sec = 0, tv_nsec = 0\<rparr>, i_atime = \<lparr>tv_sec = 0, tv_nsec = 0\<rparr>,
      i_ctime = \<lparr>tv_sec = 0, tv_nsec = 0\<rparr>, i_blocks = 0, i_rdev = 0, i_ops = no_ops,
      I_NEW = True, i1_data = replicate 16 0, i2_data = replicate 16 0\<rparr>"

definition root_raw2 :: "minix2_inode buffer_head" where
  "root_raw2 =
     \<lparr>b_data = \<lparr>r2_i_mode = 0x41ED, r2_i_nlinks = 2, r2_i_uid = 0, r2_i_gid = 0,
                 r2_i_size = 64, r2_i_atime = 0, r2_i_mtime = 0, r2_i_ctime = 0,
                 r2_i_zone = [3, 0, 0, 0, 0, 0, 0, 0, 0, 0]\<rparr>,
      b_state = clean_state\<rparr>"

text \<open>
  A device that holds the given block 1, ten readable bitmap blocks behind it and a root
  inode, and that accepts no block size but 1024.
\<close>

definition disk_host :: "sb_data buffer_head \<Rightarrow> host" where
  "disk_host sb1 =
     quiet_host\<lparr>bread_super := (\<lambda>bs blk. if bs = 1024 \<and> blk = 1 then Some sb1 else None),
                bread_bitmap := (\<lambda>bs blk. if bs = 1024 \<and> 2 \<le> blk \<and> blk < 12
                                          then Some zero_bitmap else None),
                iget_locked := (\<lambda>ino. iget_found (fresh_inode ino)),
                minix_V1_raw_inode := (\<lambda>ino. if ino = 1 then Some root_raw else None),
                minix_V2_raw_inode := (\<lambda>ino. if ino = 1 then Some root_raw2 else None)\<rparr>"

definition clean_v1_host :: host where
  "clean_v1_host = disk_host clean_v1_super"






text \<open>
  A V3 volume that declares blocks of 8192 bytes, on the device that accepts 1024 only:
  16 inodes, 64 zones, one block for each bitmap, first data zone 3, maximum size
  0x7FFFFFFF, and 0x4D5A at byte offset 24. The V1/V2 view of these bytes has 0xFFFF in
  its magic field.
\<close>

definition big_block_v3_ms :: minix_super_block where
  "big_block_v3_ms =
     \<lparr>ms_s_ninodes = 16, ms_s_nzones = 0, ms_s_imap_blocks = 0, ms_s_zmap_blocks = 1,
      ms_s_firstdatazone = 1, ms_s_log_zone_size = 3, ms_s_max_size = 0,
      ms_s_magic = 0xFFFF, ms_s_state = 0x7FFF, ms_s_zones = 64\<rparr>"

definition big_block_v3_super :: "sb_data buffer_head" where
  "big_block_v3_super = block1 big_block_v3_ms 0x4D5A 8192"

text \<open>
  The fourth scenario of section 8: the forced write of a buffer completes, and the
  buffer is not up to date afterwards.
\<close>

definition failing_write_host :: host where
  "failing_write_host =
     (disk_host clean_v1_super)
       \<lparr>sync_dirty_buffer := (\<lambda>b. b\<lparr>BH_Dirty := False, BH_Req := True, BH_Uptodate := False\<rparr>)\<rparr>"

definition clean_v1_sbi :: minix_sb_info where
  "clean_v1_sbi = (sbi_of_ms clean_v1_super)\<lparr>s_version := MINIX_V1, s_dirsize := 16, s_namelen := 14\<rparr>"

text \<open>A block 1 that carries none of the five magic numbers.\<close>

definition no_magic_super :: "sb_data buffer_head" where
  "no_magic_super = block1 (clean_v1_ms\<lparr>ms_s_magic := 0\<rparr>) 0 0"

definition blank_sb :: super_block where
  "blank_sb =
     \<lparr>s_blocksize = 0, s_magic = 0, s_max_links = 0, s_flags = 0, s_id = ''loop0'',
      s_dev = 0x700, s_op = None, s_fs_info = None, s_root = None\<rparr>"

text \<open>
  The fifth scenario of section 8: a regular file of 5000 bytes on the V1 volume, with no
  link left. And a directory that still has its two links.
\<close>

definition unlinked_file :: inode where
  "unlinked_file = (fresh_inode 5)\<lparr>i_mode := 0x81A4, i_nlink := 0, i_size := 5000\<rparr>"

definition linked_dir :: inode where
  "linked_dir = (fresh_inode 1)\<lparr>i_mode := 0x41ED, i_nlink := 2, i_size := 32\<rparr>"

text \<open>
  The sixth scenario of section 8: the clean V1 volume mounted read-only, with VALID in
  the state field on disk.
\<close>

definition ro_v1_volume :: super_block where
  "ro_v1_volume =
     blank_sb\<lparr>s_blocksize := 1024, s_magic := 0x137F, s_flags := SB_RDONLY,
              s_fs_info := Some clean_v1_sbi\<rparr>"

section \<open>Predicates of the statements\<close>

text \<open>
  The outcome of the magic stage: the superblock was accepted as the given version, with
  the given directory stride, name length and zone count. And the four magic numbers of
  V1 and V2.
\<close>

definition parsed_as ::
  "host \<Rightarrow> super_block \<Rightarrow> sb_data buffer_head \<Rightarrow> u16 \<Rightarrow> int \<Rightarrow> int \<Rightarrow> u64 \<Rightarrow> bool" where
  "parsed_as h s bh ver dirsize namelen nzones =
     (case read_super_fields h s bh of
        None \<Rightarrow> False
      | Some (sbi, s') \<Rightarrow>
          s_version sbi = ver \<and> s_dirsize sbi = dirsize \<and> s_namelen sbi = namelen
          \<and> s_nzones sbi = nzones)"

definition v12_magic :: "u16 \<Rightarrow> bool" where
  "v12_magic m = (m = 0x137F \<or> m = 0x138F \<or> m = 0x2468 \<or> m = 0x2478)"

text \<open>
  Bit 0 of the first block of the inode bitmap and bit 0 of the first block of the zone
  bitmap are set in the memory of a volume.
\<close>

definition reserved_bits_set :: "super_block \<Rightarrow> bool" where
  "reserved_bits_set v =
     (case s_fs_info v of
        None \<Rightarrow> False
      | Some sbi \<Rightarrow>
          (case s_imap sbi 0 of None \<Rightarrow> False | Some bh \<Rightarrow> minix_test_bit 0 bh)
          \<and> (case s_zmap sbi 0 of None \<Rightarrow> False | Some bh \<Rightarrow> minix_test_bit 0 bh))"

text \<open>
  An inode populated from a V1 raw record: nine zone words, mode, owner, size and link
  count as on disk, and the one time of the record in all three timestamps with zero
  nanoseconds. And from a V2 or V3 record: ten zone words and the three times of the
  record, each with zero nanoseconds.
\<close>

definition populated_v1 :: "minix_inode \<Rightarrow> int + inode \<Rightarrow> bool" where
  "populated_v1 raw r =
     (case r of
        Inl e \<Rightarrow> False
      | Inr i \<Rightarrow>
          take 9 (i1_data i) = r1_i_zone raw
          \<and> i_mode i = r1_i_mode raw
          \<and> unat (i_uid i) = unat (r1_i_uid raw)
          \<and> unat (i_gid i) = unat (r1_i_gid raw)
          \<and> unat (i_size i) = unat (r1_i_size raw)
          \<and> unat (i_nlink i) = unat (r1_i_nlinks raw)
          \<and> unat (tv_sec (i_mtime i)) = unat (r1_i_time raw) \<and> tv_nsec (i_mtime i) = 0
          \<and> i_atime i = i_mtime i \<and> i_ctime i = i_mtime i)"

definition populated_v2 :: "minix2_inode \<Rightarrow> int + inode \<Rightarrow> bool" where
  "populated_v2 raw r =
     (case r of
        Inl e \<Rightarrow> False
      | Inr i \<Rightarrow>
          take 10 (i2_data i) = r2_i_zone raw
          \<and> i_mode i = r2_i_mode raw
          \<and> unat (i_uid i) = unat (r2_i_uid raw)
          \<and> unat (i_gid i) = unat (r2_i_gid raw)
          \<and> unat (i_size i) = unat (r2_i_size raw)
          \<and> unat (i_nlink i) = unat (r2_i_nlinks raw)
          \<and> unat (tv_sec (i_mtime i)) = unat (r2_i_mtime raw) \<and> tv_nsec (i_mtime i) = 0
          \<and> unat (tv_sec (i_atime i)) = unat (r2_i_atime raw) \<and> tv_nsec (i_atime i) = 0
          \<and> unat (tv_sec (i_ctime i)) = unat (r2_i_ctime raw) \<and> tv_nsec (i_ctime i) = 0)"

text \<open>
  A raw record that holds an inode, as the two update functions leave it, and the
  message of a failed flush.
\<close>

definition written_v1 :: "host \<Rightarrow> inode \<Rightarrow> minix_inode \<Rightarrow> bool" where
  "written_v1 h inode raw =
     (r1_i_mode raw = i_mode inode
      \<and> r1_i_uid raw = fs_high2lowuid h (i_uid inode)
      \<and> r1_i_gid raw = ucast (fs_high2lowgid h (i_gid inode))
      \<and> r1_i_nlinks raw = ucast (i_nlink inode)
      \<and> r1_i_size raw = ucast (i_size inode)
      \<and> r1_i_time raw = ucast (tv_sec (i_mtime inode))
      \<and> (if S_ISCHR (i_mode inode) \<or> S_ISBLK (i_mode inode)
          then r1_i_zone raw ! 0 = old_encode_dev h (i_rdev inode)
          else r1_i_zone raw = take 9 (i1_data inode)))"

definition written_v2 :: "host \<Rightarrow> inode \<Rightarrow> minix2_inode \<Rightarrow> bool" where
  "written_v2 h inode raw =
     (r2_i_mode raw = i_mode inode
      \<and> r2_i_uid raw = fs_high2lowuid h (i_uid inode)
      \<and> r2_i_gid raw = fs_high2lowgid h (i_gid inode)
      \<and> r2_i_nlinks raw = ucast (i_nlink inode)
      \<and> r2_i_size raw = ucast (i_size inode)
      \<and> r2_i_mtime raw = ucast (tv_sec (i_mtime inode))
      \<and> r2_i_atime raw = ucast (tv_sec (i_atime inode))
      \<and> r2_i_ctime raw = ucast (tv_sec (i_ctime inode))
      \<and> (if S_ISCHR (i_mode inode) \<or> S_ISBLK (i_mode inode)
          then r2_i_zone raw ! 0 = ucast (old_encode_dev h (i_rdev inode))
          else r2_i_zone raw = take 10 (i2_data inode)))"

definition raw_written :: "host \<Rightarrow> inode \<Rightarrow> raw_buffer \<Rightarrow> bool" where
  "raw_written h inode rb =
     (case rb of
        V1_raw bh \<Rightarrow> written_v1 h inode (b_data bh)
      | V2_raw bh \<Rightarrow> written_v2 h inode (b_data bh))"

definition raw_state :: "raw_buffer \<Rightarrow> b_state" where
  "raw_state rb = (case rb of V1_raw bh \<Rightarrow> b_state bh | V2_raw bh \<Rightarrow> b_state bh)"

text \<open>
  The state bits of the buffer the raw-inode reader of the volume's version returns for
  the inode; and the sizes the arrays have in C: sixteen zone words in the inode, nine or
  ten in a raw record.
\<close>

definition raw_inode_read :: "host \<Rightarrow> minix_sb_info \<Rightarrow> inode \<Rightarrow> b_state option" where
  "raw_inode_read h sbi inode =
     (if s_version sbi = MINIX_V1
      then map_option b_state (minix_V1_raw_inode h (i_ino inode))
      else map_option b_state (minix_V2_raw_inode h (i_ino inode)))"

definition raw_arrays_ok :: "host \<Rightarrow> minix_sb_info \<Rightarrow> inode \<Rightarrow> bool" where
  "raw_arrays_ok h sbi inode =
     (length (i1_data inode) = 16 \<and> length (i2_data inode) = 16
      \<and> (case minix_V1_raw_inode h (i_ino inode) of
            None \<Rightarrow> True | Some bh \<Rightarrow> length (r1_i_zone (b_data bh)) = 9)
      \<and> (case minix_V2_raw_inode h (i_ino inode) of
            None \<Rightarrow> True | Some bh \<Rightarrow> length (r2_i_zone (b_data bh)) = 10))"

definition io_error_message :: "super_block \<Rightarrow> inode \<Rightarrow> message" where
  "io_error_message sb inode =
     (''IO error syncing minix inode [%s:%08lx]'' @ [CHR 0x0A],
      [arg_s (s_id sb), arg_lx (i_ino inode)])"

text \<open>
  The outcome of a flush on a buffer whose state bits were \<open>st0\<close> when it was read:
  with the sync flag the dirtied buffer went through \<open>sync_dirty_buffer\<close>, and the result
  is \<open>-EIO\<close> with the message exactly when the buffer then carries a request and is not
  up to date; without the flag the buffer is left dirty and the result is 0.
\<close>

definition flushed ::
  "host \<Rightarrow> super_block \<Rightarrow> inode \<Rightarrow> writeback_control \<Rightarrow> b_state
     \<Rightarrow> int \<Rightarrow> message list \<Rightarrow> b_state \<Rightarrow> bool" where
  "flushed h sb inode wbc st0 err msgs st =
     (if sync_mode wbc = WB_SYNC_ALL then
        st = sync_dirty_buffer h (st0\<lparr>BH_Dirty := True\<rparr>)
        \<and> (if BH_Req st \<and> \<not> BH_Uptodate st
            then err = - EIO \<and> msgs = [io_error_message sb inode]
            else err = 0 \<and> msgs = [])
      else st = st0\<lparr>BH_Dirty := True\<rparr> \<and> err = 0 \<and> msgs = [])"

text \<open>Bitmap block counts that fit 16 bits, as every count read from a superblock does.\<close>


definition small_counts :: "minix_sb_info \<Rightarrow> bool" where
  "small_counts sbi =
     (unat (s_imap_blocks sbi) < 65536 \<and> unat (s_zmap_blocks sbi) < 65536)"

section \<open>Facts about the mount path\<close>

subsection \<open>Words\<close>

lemma unat_u16_bound: "unat (x::u16) < 65536"
  using unsigned_less [of x, where 'a = nat] by simp

lemma unat_ucast_16_64: "unat (ucast (x::u16) :: u64) = unat x"
proof -
  have "unat x < 2 ^ 64"
    using unat_u16_bound [of x] by simp
  then show ?thesis
    by (simp add: unsigned_ucast_eq take_bit_nat_eq_self)
qed

lemma unat_ucast_up:
  fixes w :: "'a::len word"
  assumes "LENGTH('a) \<le> LENGTH('b::len)"
  shows "unat (ucast w :: 'b word) = unat w"
proof -
  have "unat w < 2 ^ LENGTH('a)" by (rule unsigned_less)
  also have "(2::nat) ^ LENGTH('a) \<le> 2 ^ LENGTH('b)" using assms by simp
  finally show ?thesis by (simp add: unsigned_ucast_eq take_bit_nat_eq_self)
qed

subsection \<open>The bitmap loops\<close>

lemma read_bitmaps_done:
  "\<not> i < n \<Longrightarrow> read_bitmaps h s base n i block m = Some (m, block)"
  by (subst read_bitmaps.simps) simp

lemma read_bitmaps_fail:
  "i < n \<Longrightarrow> bread_bitmap h (s_blocksize s) block = None \<Longrightarrow>
   read_bitmaps h s base n i block m = None"
  by (subst read_bitmaps.simps) simp

lemma read_bitmaps_step:
  "i < n \<Longrightarrow> bread_bitmap h (s_blocksize s) block = Some bh \<Longrightarrow>
   read_bitmaps h s base n i block m =
   read_bitmaps h s base n (i + 1) (block + 1) (m[base + i := Some bh])"
  by (subst read_bitmaps.simps) simp

lemma read_bitmaps_length:
  "read_bitmaps h s base n i block m = Some (m', b') \<Longrightarrow> length m' = length m"
proof (induction h s base n i block m rule: read_bitmaps.induct)
  case (1 h s base n i block m)
  show ?case
  proof (cases "i < n")
    case True
    then obtain bh where bh: "bread_bitmap h (s_blocksize s) block = Some bh"
      using "1.prems" read_bitmaps_fail [OF True, of h s block base m]
      by (cases "bread_bitmap h (s_blocksize s) block") simp_all
    from "1.prems" read_bitmaps_step [OF True bh, of base m]
    have "read_bitmaps h s base n (i + 1) (block + 1) (m[base + i := Some bh]) = Some (m', b')"
      by simp
    from "1.IH" [OF True bh this] show ?thesis by simp
  next
    case False
    with "1.prems" show ?thesis by (simp add: read_bitmaps_done)
  qed
qed

lemma read_bitmaps_kept:
  "read_bitmaps h s base n i block m = Some (m', b') \<Longrightarrow> k < base + i \<Longrightarrow> m' ! k = m ! k"
proof (induction h s base n i block m rule: read_bitmaps.induct)
  case (1 h s base n i block m)
  show ?case
  proof (cases "i < n")
    case True
    then obtain bh where bh: "bread_bitmap h (s_blocksize s) block = Some bh"
      using "1.prems" read_bitmaps_fail [OF True, of h s block base m]
      by (cases "bread_bitmap h (s_blocksize s) block") simp_all
    from "1.prems" read_bitmaps_step [OF True bh, of base m]
    have "read_bitmaps h s base n (i + 1) (block + 1) (m[base + i := Some bh]) = Some (m', b')"
      by simp
    from "1.IH" [OF True bh this] "1.prems"(2)
    have "m' ! k = (m[base + i := Some bh]) ! k" by simp
    with "1.prems"(2) show ?thesis by simp
  next
    case False
    with "1.prems" show ?thesis by (simp add: read_bitmaps_done)
  qed
qed

lemma read_bitmaps_filled:
  "read_bitmaps h s base n i block m = Some (m', b') \<Longrightarrow> base + n \<le> length m \<Longrightarrow>
   i \<le> j \<Longrightarrow> j < n \<Longrightarrow> m' ! (base + j) \<noteq> None"
proof (induction h s base n i block m arbitrary: j rule: read_bitmaps.induct)
  case (1 h s base n i block m)
  from "1.prems" have lt: "i < n" by simp
  then obtain bh where bh: "bread_bitmap h (s_blocksize s) block = Some bh"
    using "1.prems" read_bitmaps_fail [OF lt, of h s block base m]
    by (cases "bread_bitmap h (s_blocksize s) block") simp_all
  from "1.prems" read_bitmaps_step [OF lt bh, of base m]
  have rec: "read_bitmaps h s base n (i + 1) (block + 1) (m[base + i := Some bh]) = Some (m', b')"
    by simp
  show ?case
  proof (cases "j = i")
    case True
    have "m' ! (base + i) = (m[base + i := Some bh]) ! (base + i)"
      by (rule read_bitmaps_kept [OF rec]) simp
    also have "\<dots> = Some bh"
      using lt "1.prems"(2) by simp
    finally show ?thesis using True by simp
  next
    case False
    with "1.prems" have "i + 1 \<le> j" by simp
    from "1.IH" [OF lt bh rec _ this "1.prems"(4)] "1.prems"(2) show ?thesis by simp
  qed
qed

lemma read_both_bitmaps_Some:
  assumes "read_both_bitmaps h s ni nz m = Some m'"
  shows "\<exists>m1 b1 b2. read_bitmaps h s 0 ni 0 2 m = Some (m1, b1)
           \<and> read_bitmaps h s ni nz 0 b1 m1 = Some (m', b2)"
proof (cases "read_bitmaps h s 0 ni 0 2 m")
  case None
  with assms show ?thesis by (simp add: read_both_bitmaps_def)
next
  case (Some p1)
  obtain m1 b1 where p1: "p1 = (m1, b1)" by (cases p1)
  show ?thesis
  proof (cases "read_bitmaps h s ni nz 0 b1 m1")
    case None
    with assms Some p1 show ?thesis by (simp add: read_both_bitmaps_def)
  next
    case (Some p2)
    obtain m2 b2 where p2: "p2 = (m2, b2)" by (cases p2)
    from assms \<open>read_bitmaps h s 0 ni 0 2 m = Some p1\<close> p1 Some p2 show ?thesis
      by (simp add: read_both_bitmaps_def)
  qed
qed

lemma read_both_bitmaps_filled:
  assumes "read_both_bitmaps h s ni nz m = Some m'"
    and "0 < ni" and "0 < nz" and "ni + nz \<le> length m"
  shows "length m' = length m \<and> m' ! 0 \<noteq> None \<and> m' ! ni \<noteq> None"
proof -
  from read_both_bitmaps_Some [OF assms(1)] obtain m1 b1 b2 where
    r1: "read_bitmaps h s 0 ni 0 2 m = Some (m1, b1)" and
    r2: "read_bitmaps h s ni nz 0 b1 m1 = Some (m', b2)"
    by blast
  have l1: "length m1 = length m" by (rule read_bitmaps_length [OF r1])
  have l2: "length m' = length m1" by (rule read_bitmaps_length [OF r2])
  have "m1 ! (0 + 0) \<noteq> None"
    by (rule read_bitmaps_filled [OF r1]) (use assms in simp_all)
  moreover have "m' ! 0 = m1 ! 0"
    by (rule read_bitmaps_kept [OF r2]) (use assms in simp)
  moreover have "m' ! (ni + 0) \<noteq> None"
    by (rule read_bitmaps_filled [OF r2]) (use assms l1 in simp_all)
  ultimately show ?thesis using l1 l2 by simp
qed

lemma reserve_bit0_Some:
  assumes "m ! 0 \<noteq> None" and "m ! ni \<noteq> None" and "0 < ni" and "ni < length m"
  shows "\<exists>m'. reserve_bit0 ni m = Some m'"
  using assms by (auto simp: reserve_bit0_def set_bit0_def split: option.splits)

lemma reserve_bit0_bits:
  assumes "reserve_bit0 ni m = Some m'" and "0 < ni" and "ni < length m"
  shows "\<exists>bi bz. m' ! 0 = Some bi \<and> minix_test_bit 0 bi
                \<and> m' ! ni = Some bz \<and> minix_test_bit 0 bz"
proof -
  from assms(1) obtain bi where bi: "m ! 0 = Some bi"
    by (cases "m ! 0") (simp_all add: reserve_bit0_def set_bit0_def)
  let ?m1 = "m[0 := Some (minix_set_bit 0 bi)]"
  from assms(1) bi have s2: "set_bit0 ni ?m1 = Some m'"
    by (simp add: reserve_bit0_def set_bit0_def)
  then obtain bz where bz: "?m1 ! ni = Some bz"
    by (cases "?m1 ! ni") (simp_all add: set_bit0_def)
  with s2 have m': "m' = ?m1[ni := Some (minix_set_bit 0 bz)]"
    by (simp add: set_bit0_def)
  have len: "0 < length m" using assms(3) by (cases m) simp_all
  have "m' ! 0 = Some (minix_set_bit 0 bi)"
    using m' assms(2) len by simp
  moreover have "m' ! ni = Some (minix_set_bit 0 bz)"
    using m' assms(3) by simp
  moreover have "minix_test_bit 0 (minix_set_bit 0 bi)" "minix_test_bit 0 (minix_set_bit 0 bz)"
    by (simp_all add: minix_test_bit_def minix_set_bit_def)
  ultimately show ?thesis by simp
qed

subsection \<open>The magic and the fields\<close>

lemma magic_eq: "((ucast (m::u16) :: u64) = ucast (k::u16)) = (m = k)"
proof
  assume "(ucast m :: u64) = ucast k"
  then have "(ucast (ucast m :: u64) :: u16) = ucast (ucast k :: u64)" by simp
  then show "m = k" by (simp add: ucast_up_ucast_id is_up)
qed simp

lemma distinct_magic:
  "MINIX_SUPER_MAGIC \<noteq> MINIX_SUPER_MAGIC2" "MINIX_SUPER_MAGIC \<noteq> MINIX2_SUPER_MAGIC"
  "MINIX_SUPER_MAGIC \<noteq> MINIX2_SUPER_MAGIC2" "MINIX_SUPER_MAGIC2 \<noteq> MINIX2_SUPER_MAGIC"
  "MINIX_SUPER_MAGIC2 \<noteq> MINIX2_SUPER_MAGIC2" "MINIX2_SUPER_MAGIC \<noteq> MINIX2_SUPER_MAGIC2"
  by (simp_all add: MINIX_SUPER_MAGIC_def MINIX_SUPER_MAGIC2_def MINIX2_SUPER_MAGIC_def
        MINIX2_SUPER_MAGIC2_def)

lemma small_counts_ms: "small_counts (sbi_of_ms bh)"
  by (simp add: small_counts_def sbi_of_ms_def Let_def unat_ucast_16_64 unat_u16_bound)

lemma small_counts_m3s: "small_counts (sbi_of_m3s sbi m3s)"
  by (simp add: small_counts_def sbi_of_m3s_def unat_ucast_16_64 unat_u16_bound)

lemma small_counts_upd:
  "small_counts (sbi\<lparr>s_version := v, s_dirsize := d, s_namelen := n\<rparr>) = small_counts sbi"
  "small_counts (sbi\<lparr>s_version := v, s_nzones := z, s_dirsize := d, s_namelen := n\<rparr>) =
   small_counts sbi"
  by (simp_all add: small_counts_def)

lemma read_super_fields_small:
  assumes "read_super_fields h s bh = Some (sbi, s')"
  shows "small_counts sbi"
proof -
  have "case read_super_fields h s bh of None \<Rightarrow> True | Some (sbi, s') \<Rightarrow> small_counts sbi"
    unfolding read_super_fields_def Let_def
    by (simp add: small_counts_upd small_counts_ms small_counts_m3s)
  with assms show ?thesis by simp
qed

lemma small_counts_sum:
  assumes "small_counts sbi"
  shows "unat (s_imap_blocks sbi + s_zmap_blocks sbi) =
         unat (s_imap_blocks sbi) + unat (s_zmap_blocks sbi)"
proof -
  from assms have "unat (s_imap_blocks sbi) + unat (s_zmap_blocks sbi) < 2 ^ 64"
    by (simp add: small_counts_def)
  then show ?thesis by (simp add: unat_add_lem [THEN iffD1])
qed

lemma v12_magic_iff:
  "v12_magic m = (m = MINIX_SUPER_MAGIC \<or> m = MINIX_SUPER_MAGIC2
                  \<or> m = MINIX2_SUPER_MAGIC \<or> m = MINIX2_SUPER_MAGIC2)"
  by (simp add: v12_magic_def MINIX_SUPER_MAGIC_def MINIX_SUPER_MAGIC2_def
        MINIX2_SUPER_MAGIC_def MINIX2_SUPER_MAGIC2_def)

lemma parsed_v1_14:
  "ms_s_magic (as_ms (b_data bh)) = MINIX_SUPER_MAGIC \<Longrightarrow>
   parsed_as h s bh MINIX_V1 16 14 (ucast (ms_s_nzones (as_ms (b_data bh))))"
  by (simp add: parsed_as_def read_super_fields_def sbi_of_ms_def Let_def magic_eq)

lemma parsed_v1_30:
  "ms_s_magic (as_ms (b_data bh)) = MINIX_SUPER_MAGIC2 \<Longrightarrow>
   parsed_as h s bh MINIX_V1 32 30 (ucast (ms_s_nzones (as_ms (b_data bh))))"
  by (simp add: parsed_as_def read_super_fields_def sbi_of_ms_def Let_def magic_eq
        distinct_magic distinct_magic [symmetric])

lemma parsed_v2_14:
  "ms_s_magic (as_ms (b_data bh)) = MINIX2_SUPER_MAGIC \<Longrightarrow>
   parsed_as h s bh MINIX_V2 16 14 (ucast (ms_s_zones (as_ms (b_data bh))))"
  by (simp add: parsed_as_def read_super_fields_def sbi_of_ms_def Let_def magic_eq
        distinct_magic distinct_magic [symmetric])

lemma parsed_v2_30:
  "ms_s_magic (as_ms (b_data bh)) = MINIX2_SUPER_MAGIC2 \<Longrightarrow>
   parsed_as h s bh MINIX_V2 32 30 (ucast (ms_s_zones (as_ms (b_data bh))))"
  by (simp add: parsed_as_def read_super_fields_def sbi_of_ms_def Let_def magic_eq
        distinct_magic distinct_magic [symmetric])

lemma parsed_v3:
  "\<not> v12_magic (ms_s_magic (as_ms (b_data bh))) \<Longrightarrow>
   u16_at_24 (b_data bh) = MINIX3_SUPER_MAGIC \<Longrightarrow>
   parsed_as h s bh MINIX_V3 64 60 (ucast (m3s_s_zones (as_m3s (b_data bh))))"
  by (simp add: parsed_as_def read_super_fields_def sbi_of_m3s_def Let_def magic_eq
        v12_magic_iff)

lemma parsed_none:
  "\<not> v12_magic (ms_s_magic (as_ms (b_data bh))) \<Longrightarrow>
   u16_at_24 (b_data bh) \<noteq> MINIX3_SUPER_MAGIC \<Longrightarrow>
   read_super_fields h s bh = None"
  by (simp add: read_super_fields_def Let_def magic_eq v12_magic_iff)

lemma parsed_some:
  "v12_magic (ms_s_magic (as_ms (b_data bh))) \<or> u16_at_24 (b_data bh) = MINIX3_SUPER_MAGIC \<Longrightarrow>
   read_super_fields h s bh \<noteq> None"
  unfolding read_super_fields_def Let_def
  by (simp add: magic_eq v12_magic_iff) blast

subsection \<open>Loading the bitmaps\<close>

lemma load_bitmaps_illegal:
  "s_imap_blocks sbi = 0 \<or> s_zmap_blocks sbi = 0 \<Longrightarrow>
   load_bitmaps h s sbi = Inl (failed out_illegal_sb (- EINVAL))"
  by (simp add: load_bitmaps_def)

lemma load_bitmaps_no_map:
  "s_imap_blocks sbi \<noteq> 0 \<Longrightarrow> s_zmap_blocks sbi \<noteq> 0 \<Longrightarrow>
   \<not> kzalloc_map h (unat ((s_imap_blocks sbi + s_zmap_blocks sbi) * 8)) \<Longrightarrow>
   load_bitmaps h s sbi = Inl (failed out_no_map (- ENOMEM))"
  by (simp add: load_bitmaps_def Let_def)

lemma load_bitmaps_read:
  assumes "small_counts sbi" and "s_imap_blocks sbi \<noteq> 0" and "s_zmap_blocks sbi \<noteq> 0"
    and "kzalloc_map h (unat ((s_imap_blocks sbi + s_zmap_blocks sbi) * 8))"
  shows "load_bitmaps h s sbi = Inl (failed out_no_bitmap (- EINVAL))
       \<or> (\<exists>m bi bz. load_bitmaps h s sbi = Inr m
             \<and> m ! 0 = Some bi \<and> minix_test_bit 0 bi
             \<and> m ! unat (s_imap_blocks sbi) = Some bz \<and> minix_test_bit 0 bz)"
proof -
  let ?ni = "unat (s_imap_blocks sbi)" and ?nz = "unat (s_zmap_blocks sbi)"
  let ?m0 = "replicate (unat (s_imap_blocks sbi + s_zmap_blocks sbi)) (None :: bitmap buffer_head option)"
  have ni: "0 < ?ni" using assms(2) by (simp add: unat_gt_0)
  have nz: "0 < ?nz" using assms(3) by (simp add: unat_gt_0)
  have len: "length ?m0 = ?ni + ?nz" by (simp add: small_counts_sum [OF assms(1)])
  show ?thesis
  proof (cases "read_both_bitmaps h s ?ni ?nz ?m0")
    case None
    with assms show ?thesis by (simp add: load_bitmaps_def Let_def)
  next
    case (Some m1)
    from read_both_bitmaps_filled [OF Some ni nz] len
    have f: "length m1 = ?ni + ?nz" "m1 ! 0 \<noteq> None" "m1 ! ?ni \<noteq> None" by simp_all
    have lt: "?ni < length m1" using f(1) nz by simp
    from reserve_bit0_Some [OF f(2) f(3) ni lt] obtain m2 where
      m2: "reserve_bit0 ?ni m1 = Some m2" by blast
    from reserve_bit0_bits [OF m2 ni lt] obtain bi bz where
      "m2 ! 0 = Some bi" "minix_test_bit 0 bi" "m2 ! ?ni = Some bz" "minix_test_bit 0 bz"
      by blast
    moreover have "load_bitmaps h s sbi = Inr m2"
      using assms Some m2 by (simp add: load_bitmaps_def Let_def)
    ultimately show ?thesis by blast
  qed
qed

subsection \<open>The mount as a whole\<close>

lemma fill_super_front:
  assumes "kzalloc_sbi h" and "set_blocksize h BLOCK_SIZE"
    and "bread_super h BLOCK_SIZE 1 = Some bh"
  shows "minix_fill_super h s =
     (case read_super_fields h (s\<lparr>s_blocksize := BLOCK_SIZE\<rparr>) bh of
        None \<Rightarrow> Inl (failed out_no_fs (- EINVAL))
      | Some (sbi, s') \<Rightarrow>
          (case load_bitmaps h s' sbi of
             Inl e \<Rightarrow> Inl e
           | Inr m \<Rightarrow>
               if \<not> enough_bitmap_blocks s' (sbi\<lparr>s_map := m\<rparr>) then
                 Inl (failed out_no_bitmap (- EINVAL))
               else mount_root h s' (sbi\<lparr>s_map := m\<rparr>)))"
  using assms
  by (simp add: minix_fill_super_def sb_set_blocksize_def BLOCK_SIZE_def Let_def)

lemma fill_super_Inr:
  assumes "minix_fill_super h s = Inr v"
  shows "\<exists>bh sbi s' m.
      kzalloc_sbi h \<and> set_blocksize h BLOCK_SIZE
    \<and> bread_super h BLOCK_SIZE 1 = Some bh
    \<and> read_super_fields h (s\<lparr>s_blocksize := BLOCK_SIZE\<rparr>) bh = Some (sbi, s')
    \<and> load_bitmaps h s' sbi = Inr m \<and> enough_bitmap_blocks s' (sbi\<lparr>s_map := m\<rparr>)
    \<and> mount_root h s' (sbi\<lparr>s_map := m\<rparr>) = Inr v"
  using assms unfolding minix_fill_super_def sb_set_blocksize_def Let_def
  by (simp add: BLOCK_SIZE_def split: if_splits option.splits sum.splits prod.splits)

lemma mount_root_Inr:
  assumes "mount_root h s sbi = Inr v"
  shows "\<exists>root. v = s\<lparr>s_op := Some minix_sops, s_root := Some root,
                       s_fs_info := Some (sbi\<lparr>s_sbh := mounted_sbh (sb_rdonly s) sbi\<rparr>)\<rparr>"
  using assms unfolding mount_root_def Let_def
  by (auto simp: sb_rdonly_def split: if_splits sum.splits)

lemma fill_super_volume:
  assumes "minix_fill_super h s = Inr v"
  shows "\<exists>bh sbi s' m sbh.
      kzalloc_sbi h \<and> set_blocksize h BLOCK_SIZE
    \<and> bread_super h BLOCK_SIZE 1 = Some bh
    \<and> read_super_fields h (s\<lparr>s_blocksize := BLOCK_SIZE\<rparr>) bh = Some (sbi, s')
    \<and> load_bitmaps h s' sbi = Inr m \<and> enough_bitmap_blocks s' (sbi\<lparr>s_map := m\<rparr>)
    \<and> s_fs_info v = Some (sbi\<lparr>s_map := m, s_sbh := sbh\<rparr>)
    \<and> s_blocksize v = s_blocksize s' \<and> s_magic v = s_magic s'"
proof -
  from fill_super_Inr [OF assms] obtain bh sbi s' m where
    f: "kzalloc_sbi h" "set_blocksize h BLOCK_SIZE" "bread_super h BLOCK_SIZE 1 = Some bh"
       "read_super_fields h (s\<lparr>s_blocksize := BLOCK_SIZE\<rparr>) bh = Some (sbi, s')"
       "load_bitmaps h s' sbi = Inr m" "enough_bitmap_blocks s' (sbi\<lparr>s_map := m\<rparr>)"
       "mount_root h s' (sbi\<lparr>s_map := m\<rparr>) = Inr v"
    by blast
  from mount_root_Inr [OF f(7)] obtain root where
    v: "v = s'\<lparr>s_op := Some minix_sops, s_root := Some root,
                s_fs_info := Some (sbi\<lparr>s_map := m,
                   s_sbh := mounted_sbh (sb_rdonly s') (sbi\<lparr>s_map := m\<rparr>)\<rparr>)\<rparr>"
    by blast
  have "s_fs_info v = Some (sbi\<lparr>s_map := m,
                   s_sbh := mounted_sbh (sb_rdonly s') (sbi\<lparr>s_map := m\<rparr>)\<rparr>)"
       "s_blocksize v = s_blocksize s'" "s_magic v = s_magic s'"
    by (simp_all add: v)
  with f show ?thesis by blast
qed

lemma load_bitmaps_not_no_fs: "load_bitmaps h s sbi \<noteq> Inl (failed out_no_fs e)"
  unfolding load_bitmaps_def Let_def
  by (simp split: option.splits)

lemma mount_root_not_no_fs: "mount_root h s sbi \<noteq> Inl (failed out_no_fs e)"
  unfolding mount_root_def Let_def
  by (simp split: sum.splits)

lemma fill_super_not_no_fs:
  assumes "kzalloc_sbi h" and "set_blocksize h BLOCK_SIZE"
    and "bread_super h BLOCK_SIZE 1 = Some bh"
    and "read_super_fields h (s\<lparr>s_blocksize := BLOCK_SIZE\<rparr>) bh \<noteq> None"
  shows "minix_fill_super h s \<noteq> Inl (failed out_no_fs e)"
proof -
  from assms(4) obtain sbi s' where
    r: "read_super_fields h (s\<lparr>s_blocksize := BLOCK_SIZE\<rparr>) bh = Some (sbi, s')"
    by (cases "read_super_fields h (s\<lparr>s_blocksize := BLOCK_SIZE\<rparr>) bh") auto
  show ?thesis
  proof (cases "load_bitmaps h s' sbi")
    case (Inl e')
    with load_bitmaps_not_no_fs [of h s' sbi e] show ?thesis
      by (simp add: fill_super_front [OF assms(1-3)] r)
  next
    case (Inr m)
    with mount_root_not_no_fs [of h s' "sbi\<lparr>s_map := m\<rparr>" e] show ?thesis
      by (simp add: fill_super_front [OF assms(1-3)] r)
  qed
qed

lemma load_bitmaps_Inr:
  assumes "load_bitmaps h s sbi = Inr m"
  shows "s_imap_blocks sbi \<noteq> 0 \<and> s_zmap_blocks sbi \<noteq> 0
       \<and> kzalloc_map h (unat ((s_imap_blocks sbi + s_zmap_blocks sbi) * 8))"
proof -
  have "s_imap_blocks sbi \<noteq> 0 \<and> s_zmap_blocks sbi \<noteq> 0"
    using assms load_bitmaps_illegal [of sbi h s] by auto
  moreover from this have "kzalloc_map h (unat ((s_imap_blocks sbi + s_zmap_blocks sbi) * 8))"
    using assms load_bitmaps_no_map [of sbi h s] by auto
  ultimately show ?thesis by simp
qed

lemma clean_v1_mounts:
  "\<exists>v. minix_fill_super clean_v1_host blank_sb = Inr v"
  by (simp add: minix_fill_super_def sb_set_blocksize_def BLOCK_SIZE_def clean_v1_host_def
      disk_host_def
      quiet_host_def read_super_fields_def sbi_of_ms_def Let_def clean_v1_super_def block1_def m3s_of_bytes_def
      clean_v1_ms_def MINIX_SUPER_MAGIC_def load_bitmaps_def read_both_bitmaps_def
      read_bitmaps.simps reserve_bit0_def set_bit0_def enough_bitmap_blocks_def
      imap_blocks_needed_def zmap_blocks_needed_def minix_blocks_needed_def mount_root_def
      minix_iget_def V1_minix_iget_def fresh_inode_def root_raw_def MINIX_V1_def
      MINIX_ROOT_INO_def blank_sb_def zero_bitmap_def)

subsection \<open>The sufficiency checks\<close>

lemma read_super_fields_counts:
  assumes "read_super_fields h s bh = Some (sbi, s')"
  shows "if s_version sbi = MINIX_V3
         then s_imap_blocks sbi = ucast (m3s_s_imap_blocks (as_m3s (b_data bh)))
              \<and> s_zmap_blocks sbi = ucast (m3s_s_zmap_blocks (as_m3s (b_data bh)))
              \<and> s_ninodes sbi = ucast (m3s_s_ninodes (as_m3s (b_data bh)))
              \<and> s_firstdatazone sbi = ucast (m3s_s_firstdatazone (as_m3s (b_data bh)))
         else s_imap_blocks sbi = ucast (ms_s_imap_blocks (as_ms (b_data bh)))
              \<and> s_zmap_blocks sbi = ucast (ms_s_zmap_blocks (as_ms (b_data bh)))
              \<and> s_ninodes sbi = ucast (ms_s_ninodes (as_ms (b_data bh)))
              \<and> s_firstdatazone sbi = ucast (ms_s_firstdatazone (as_ms (b_data bh)))"
proof -
  let ?P = "\<lambda>sbi. if s_version sbi = MINIX_V3
         then s_imap_blocks sbi = ucast (m3s_s_imap_blocks (as_m3s (b_data bh)))
              \<and> s_zmap_blocks sbi = ucast (m3s_s_zmap_blocks (as_m3s (b_data bh)))
              \<and> s_ninodes sbi = ucast (m3s_s_ninodes (as_m3s (b_data bh)))
              \<and> s_firstdatazone sbi = ucast (m3s_s_firstdatazone (as_m3s (b_data bh)))
         else s_imap_blocks sbi = ucast (ms_s_imap_blocks (as_ms (b_data bh)))
              \<and> s_zmap_blocks sbi = ucast (ms_s_zmap_blocks (as_ms (b_data bh)))
              \<and> s_ninodes sbi = ucast (ms_s_ninodes (as_ms (b_data bh)))
              \<and> s_firstdatazone sbi = ucast (ms_s_firstdatazone (as_ms (b_data bh)))"
  have "case read_super_fields h s bh of None \<Rightarrow> True | Some (sbi, s') \<Rightarrow> ?P sbi"
    unfolding read_super_fields_def Let_def
    by (simp add: sbi_of_ms_def sbi_of_m3s_def Let_def MINIX_V1_def MINIX_V2_def MINIX_V3_def)
  with assms show ?thesis by simp
qed








lemma needed_s_map [simp]:
  "imap_blocks_needed s (sbi\<lparr>s_map := m\<rparr>) = imap_blocks_needed s sbi"
  "zmap_blocks_needed s (sbi\<lparr>s_map := m\<rparr>) = zmap_blocks_needed s sbi"
  by (simp_all add: imap_blocks_needed_def zmap_blocks_needed_def)




subsection \<open>Concrete volumes\<close>

lemma read_super_fields_v1_14:
  assumes "ms_s_magic (as_ms (b_data bh)) = MINIX_SUPER_MAGIC"
  shows "read_super_fields h s bh =
     Some ((sbi_of_ms bh)\<lparr>s_version := MINIX_V1, s_dirsize := 16, s_namelen := 14\<rparr>,
           s\<lparr>s_magic := ucast MINIX_SUPER_MAGIC, s_max_links := MINIX_LINK_MAX\<rparr>)"
  using assms by (simp add: read_super_fields_def Let_def)





lemma disk_host_front:
  "kzalloc_sbi (disk_host sb1)" "set_blocksize (disk_host sb1) BLOCK_SIZE"
  "bread_super (disk_host sb1) BLOCK_SIZE 1 = Some sb1"
  by (simp_all add: disk_host_def quiet_host_def BLOCK_SIZE_def)

lemma clean_v1_front:
  "kzalloc_sbi clean_v1_host" "set_blocksize clean_v1_host BLOCK_SIZE"
  "bread_super clean_v1_host BLOCK_SIZE 1 = Some clean_v1_super"
  by (simp_all add: clean_v1_host_def disk_host_def quiet_host_def BLOCK_SIZE_def)


section \<open>The superblock variants\<close>

text \<open>
  Claim C1. Once block 1 is read (the allocation of \<open>sbi\<close>, the block size 1024 and the
  read all succeeded), the 16-bit magic of the V1/V2 view decides in this order: 0x137F
  gives V1 with stride 16 and names of 14; 0x138F gives V1 with 32 and 30; 0x2468 gives
  V2 with 16 and 14; 0x2478 gives V2 with 32 and 30; otherwise 0x4D5A at byte offset 24
  gives V3 with 64 and 60. The zone count is the 16-bit \<open>s_nzones\<close> for V1 and the 32-bit
  \<open>s_zones\<close> for V2 and V3. With any other magic the mount fails at \<open>out_no_fs\<close> with
  \<open>-EINVAL\<close>; with one of the five it never fails there, and a mounted volume carries
  the values the magic stage gave.
\<close>

theorem superblock_variants:
  fixes s :: super_block
  assumes "kzalloc_sbi h" and "set_blocksize h BLOCK_SIZE"
    and "bread_super h BLOCK_SIZE 1 = Some bh"
  defines "ms \<equiv> as_ms (b_data bh)" and "s1 \<equiv> s\<lparr>s_blocksize := BLOCK_SIZE\<rparr>"
  shows "(ms_s_magic ms = 0x137F \<longrightarrow>
            parsed_as h s1 bh MINIX_V1 16 14 (ucast (ms_s_nzones ms)))
       \<and> (ms_s_magic ms = 0x138F \<longrightarrow>
            parsed_as h s1 bh MINIX_V1 32 30 (ucast (ms_s_nzones ms)))
       \<and> (ms_s_magic ms = 0x2468 \<longrightarrow>
            parsed_as h s1 bh MINIX_V2 16 14 (ucast (ms_s_zones ms)))
       \<and> (ms_s_magic ms = 0x2478 \<longrightarrow>
            parsed_as h s1 bh MINIX_V2 32 30 (ucast (ms_s_zones ms)))
       \<and> (\<not> v12_magic (ms_s_magic ms) \<and> u16_at_24 (b_data bh) = 0x4D5A \<longrightarrow>
            parsed_as h s1 bh MINIX_V3 64 60 (ucast (m3s_s_zones (as_m3s (b_data bh)))))
       \<and> (\<not> v12_magic (ms_s_magic ms) \<and> u16_at_24 (b_data bh) \<noteq> 0x4D5A \<longrightarrow>
            minix_fill_super h s = Inl (failed out_no_fs (- EINVAL)))
       \<and> (v12_magic (ms_s_magic ms) \<or> u16_at_24 (b_data bh) = 0x4D5A \<longrightarrow>
            (\<forall>e. minix_fill_super h s \<noteq> Inl (failed out_no_fs e)))
       \<and> (\<forall>v. minix_fill_super h s = Inr v \<longrightarrow>
            (case s_fs_info v of
               None \<Rightarrow> False
             | Some sbi \<Rightarrow>
                 parsed_as h s1 bh (s_version sbi) (s_dirsize sbi) (s_namelen sbi)
                   (s_nzones sbi)))"
proof -
  have m3: "(0x4D5A :: u16) = MINIX3_SUPER_MAGIC" by (simp add: MINIX3_SUPER_MAGIC_def)
  have c1: "ms_s_magic ms = 0x137F \<longrightarrow>
            parsed_as h s1 bh MINIX_V1 16 14 (ucast (ms_s_nzones ms))"
    using parsed_v1_14 [of bh h s1] by (simp add: ms_def MINIX_SUPER_MAGIC_def)
  have c2: "ms_s_magic ms = 0x138F \<longrightarrow>
            parsed_as h s1 bh MINIX_V1 32 30 (ucast (ms_s_nzones ms))"
    using parsed_v1_30 [of bh h s1] by (simp add: ms_def MINIX_SUPER_MAGIC2_def)
  have c3: "ms_s_magic ms = 0x2468 \<longrightarrow>
            parsed_as h s1 bh MINIX_V2 16 14 (ucast (ms_s_zones ms))"
    using parsed_v2_14 [of bh h s1] by (simp add: ms_def MINIX2_SUPER_MAGIC_def)
  have c4: "ms_s_magic ms = 0x2478 \<longrightarrow>
            parsed_as h s1 bh MINIX_V2 32 30 (ucast (ms_s_zones ms))"
    using parsed_v2_30 [of bh h s1] by (simp add: ms_def MINIX2_SUPER_MAGIC2_def)
  have c5: "\<not> v12_magic (ms_s_magic ms) \<and> u16_at_24 (b_data bh) = 0x4D5A \<longrightarrow>
            parsed_as h s1 bh MINIX_V3 64 60 (ucast (m3s_s_zones (as_m3s (b_data bh))))"
    using parsed_v3 [of bh h s1] unfolding ms_def m3 by blast
  have c6: "\<not> v12_magic (ms_s_magic ms) \<and> u16_at_24 (b_data bh) \<noteq> 0x4D5A \<longrightarrow>
            minix_fill_super h s = Inl (failed out_no_fs (- EINVAL))"
    using parsed_none [of bh h s1] unfolding ms_def m3 s1_def
    by (auto simp: fill_super_front [OF assms(1-3)])
  have c7: "v12_magic (ms_s_magic ms) \<or> u16_at_24 (b_data bh) = 0x4D5A \<longrightarrow>
            (\<forall>e. minix_fill_super h s \<noteq> Inl (failed out_no_fs e))"
    using parsed_some [of bh h s1] fill_super_not_no_fs [OF assms(1-3), of s]
    unfolding ms_def m3 s1_def by blast
  have c8: "\<forall>v. minix_fill_super h s = Inr v \<longrightarrow>
            (case s_fs_info v of
               None \<Rightarrow> False
             | Some sbi \<Rightarrow>
                 parsed_as h s1 bh (s_version sbi) (s_dirsize sbi) (s_namelen sbi)
                   (s_nzones sbi))"
  proof (intro allI impI)
    fix v assume "minix_fill_super h s = Inr v"
    from fill_super_volume [OF this] assms(3) obtain sbi s' m sbh where
      "read_super_fields h s1 bh = Some (sbi, s')"
      "s_fs_info v = Some (sbi\<lparr>s_map := m, s_sbh := sbh\<rparr>)"
      unfolding s1_def by auto
    then show "case s_fs_info v of
               None \<Rightarrow> False
             | Some sbi \<Rightarrow>
                 parsed_as h s1 bh (s_version sbi) (s_dirsize sbi) (s_namelen sbi)
                   (s_nzones sbi)"
      by (simp add: parsed_as_def)
  qed
  from c1 c2 c3 c4 c5 c6 c7 c8 show ?thesis by blast
qed

theorem superblock_variants_witness:
  "kzalloc_sbi clean_v1_host \<and> set_blocksize clean_v1_host BLOCK_SIZE
   \<and> bread_super clean_v1_host BLOCK_SIZE 1 = Some clean_v1_super
   \<and> ms_s_magic (as_ms (b_data clean_v1_super)) = 0x137F
   \<and> parsed_as clean_v1_host (blank_sb\<lparr>s_blocksize := BLOCK_SIZE\<rparr>) clean_v1_super
        MINIX_V1 16 14 64
   \<and> parsed_as (disk_host big_block_v3_super) (blank_sb\<lparr>s_blocksize := BLOCK_SIZE\<rparr>)
        big_block_v3_super MINIX_V3 64 60 64
   \<and> minix_fill_super (disk_host no_magic_super) blank_sb = Inl (failed out_no_fs (- EINVAL))"
proof -
  have m: "ms_s_magic (as_ms (b_data clean_v1_super)) = 0x137F"
    and z: "ms_s_nzones (as_ms (b_data clean_v1_super)) = 64"
    by (simp_all add: clean_v1_super_def block1_def m3s_of_bytes_def clean_v1_ms_def)
  from superblock_variants [OF clean_v1_front, of blank_sb] m
  have "parsed_as clean_v1_host (blank_sb\<lparr>s_blocksize := BLOCK_SIZE\<rparr>) clean_v1_super
        MINIX_V1 16 14 (ucast (ms_s_nzones (as_ms (b_data clean_v1_super))))"
    by blast
  with z have a: "parsed_as clean_v1_host (blank_sb\<lparr>s_blocksize := BLOCK_SIZE\<rparr>)
        clean_v1_super MINIX_V1 16 14 64" by simp
  have m3: "\<not> v12_magic (ms_s_magic (as_ms (b_data big_block_v3_super)))"
    "u16_at_24 (b_data big_block_v3_super) = 0x4D5A"
    "m3s_s_zones (as_m3s (b_data big_block_v3_super)) = 64"
    by (simp_all add: big_block_v3_super_def block1_def m3s_of_bytes_def big_block_v3_ms_def clean_v1_ms_def v12_magic_def)
  from superblock_variants [OF disk_host_front, of big_block_v3_super blank_sb] m3(1,2)
  have "parsed_as (disk_host big_block_v3_super) (blank_sb\<lparr>s_blocksize := BLOCK_SIZE\<rparr>)
        big_block_v3_super MINIX_V3 64 60
        (ucast (m3s_s_zones (as_m3s (b_data big_block_v3_super))))"
    by blast
  with m3(3) have b: "parsed_as (disk_host big_block_v3_super)
        (blank_sb\<lparr>s_blocksize := BLOCK_SIZE\<rparr>) big_block_v3_super MINIX_V3 64 60 64"
    by simp
  have m0: "\<not> v12_magic (ms_s_magic (as_ms (b_data no_magic_super)))"
    "u16_at_24 (b_data no_magic_super) \<noteq> 0x4D5A"
    by (simp_all add: no_magic_super_def block1_def m3s_of_bytes_def clean_v1_ms_def v12_magic_def)
  from superblock_variants [OF disk_host_front, of no_magic_super blank_sb] m0
  have c: "minix_fill_super (disk_host no_magic_super) blank_sb
           = Inl (failed out_no_fs (- EINVAL))"
    by blast
  from clean_v1_front m a b c show ?thesis by simp
qed

section \<open>The bitmap block counts\<close>




section \<open>The block size\<close>

text \<open>
  The first \<open>sb_set_blocksize\<close> (line 201) is tested: when the device refuses 1024 the
  mount fails at \<open>out_bad_hblock\<close>. The second one (line 258, on the V3 path) is not:
  once the first call succeeded, no mount fails at \<open>out_bad_hblock\<close>, whatever the
  device says to the block size of a V3 superblock.
\<close>

lemma first_blocksize_refusal_fails:
  "kzalloc_sbi h \<Longrightarrow> \<not> set_blocksize h BLOCK_SIZE \<Longrightarrow>
   minix_fill_super h s = Inl (failed out_bad_hblock (- EINVAL))"
  by (simp add: minix_fill_super_def sb_set_blocksize_def)

lemma load_bitmaps_not_bad_hblock: "load_bitmaps h s sbi \<noteq> Inl (failed out_bad_hblock e)"
  unfolding load_bitmaps_def Let_def
  by (simp split: option.splits)

lemma mount_root_not_bad_hblock: "mount_root h s sbi \<noteq> Inl (failed out_bad_hblock e)"
  unfolding mount_root_def Let_def
  by (simp split: sum.splits)

lemma second_blocksize_refusal_ignored:
  assumes "kzalloc_sbi h" and "set_blocksize h BLOCK_SIZE"
  shows "minix_fill_super h s \<noteq> Inl (failed out_bad_hblock e)"
proof (cases "bread_super h BLOCK_SIZE 1")
  case None
  with assms show ?thesis
    by (simp add: minix_fill_super_def sb_set_blocksize_def BLOCK_SIZE_def)
next
  case (Some bh)
  note front = fill_super_front [OF assms Some, of s]
  show ?thesis
  proof (cases "read_super_fields h (s\<lparr>s_blocksize := BLOCK_SIZE\<rparr>) bh")
    case None
    then show ?thesis by (simp add: front)
  next
    case (Some p)
    obtain sbi s' where p: "p = (sbi, s')" by (cases p)
    show ?thesis
    proof (cases "load_bitmaps h s' sbi")
      case (Inl e')
      with load_bitmaps_not_bad_hblock [of h s' sbi e] show ?thesis
        by (simp add: front Some p)
    next
      case (Inr m)
      with mount_root_not_bad_hblock [of h s' "sbi\<lparr>s_map := m\<rparr>" e] show ?thesis
        by (simp add: front Some p)
    qed
  qed
qed

text \<open>
  Claim C3, at a concrete device. The superblock is V3 and declares blocks of 8192 bytes;
  the device refuses that size. The mount does not fail: it returns a V3 volume whose
  block size is still 1024.
\<close>

theorem v3_blocksize_refusal_mounts:
  "\<not> set_blocksize (disk_host big_block_v3_super) 8192
   \<and> unat (m3s_s_blocksize (as_m3s (b_data big_block_v3_super))) = 8192
   \<and> (case minix_fill_super (disk_host big_block_v3_super) blank_sb of
         Inl e \<Rightarrow> False
       | Inr v \<Rightarrow> s_blocksize v = 1024 \<and> map_option s_version (s_fs_info v) = Some MINIX_V3)"
  by (simp add: minix_fill_super_def sb_set_blocksize_def BLOCK_SIZE_def
      disk_host_def
      quiet_host_def read_super_fields_def sbi_of_ms_def sbi_of_m3s_def Let_def
      big_block_v3_super_def block1_def m3s_of_bytes_def big_block_v3_ms_def
      clean_v1_ms_def MINIX_SUPER_MAGIC_def MINIX_SUPER_MAGIC2_def MINIX2_SUPER_MAGIC_def
      MINIX2_SUPER_MAGIC2_def MINIX3_SUPER_MAGIC_def
      load_bitmaps_def read_both_bitmaps_def
      read_bitmaps.simps reserve_bit0_def set_bit0_def enough_bitmap_blocks_def
      imap_blocks_needed_def zmap_blocks_needed_def minix_blocks_needed_def mount_root_def
      minix_iget_def V2_minix_iget_def fresh_inode_def root_raw2_def MINIX_V1_def MINIX_V3_def
      MINIX_ROOT_INO_def blank_sb_def zero_bitmap_def)

section \<open>The reserved bits\<close>

text \<open>
  Claim C8. Every volume \<open>minix_fill_super\<close> returns has bit 0 of \<open>s_imap[0]\<close> and bit 0
  of \<open>s_zmap[0]\<close> set in memory, whatever the host read from the disk: the two
  \<open>minix_set_bit\<close> calls behind the read loops are not guarded, and nothing on the rest
  of the mount path writes to a bitmap block.
\<close>

theorem reserved_bits_set_on_mount:
  assumes "minix_fill_super h s = Inr v"
  shows "reserved_bits_set v"
proof -
  from fill_super_volume [OF assms] obtain bh sbi s' m sbh where
    r: "read_super_fields h (s\<lparr>s_blocksize := BLOCK_SIZE\<rparr>) bh = Some (sbi, s')" and
    l: "load_bitmaps h s' sbi = Inr m" and
    v: "s_fs_info v = Some (sbi\<lparr>s_map := m, s_sbh := sbh\<rparr>)"
    by blast
  have small: "small_counts sbi" by (rule read_super_fields_small [OF r])
  from load_bitmaps_Inr [OF l] have pre: "s_imap_blocks sbi \<noteq> 0" "s_zmap_blocks sbi \<noteq> 0"
    "kzalloc_map h (unat ((s_imap_blocks sbi + s_zmap_blocks sbi) * 8))" by simp_all
  from load_bitmaps_read [OF small pre, of s'] l obtain bi bz where
    "m ! 0 = Some bi" "minix_test_bit 0 bi"
    "m ! unat (s_imap_blocks sbi) = Some bz" "minix_test_bit 0 bz"
    by auto
  then show ?thesis
    by (simp add: reserved_bits_set_def v s_imap_def s_zmap_def)
qed

theorem reserved_bits_set_on_mount_witness:
  "\<not> minix_test_bit 0 zero_bitmap
   \<and> (\<exists>v. minix_fill_super clean_v1_host blank_sb = Inr v \<and> reserved_bits_set v)"
proof -
  from clean_v1_mounts obtain v where v: "minix_fill_super clean_v1_host blank_sb = Inr v"
    by blast
  from reserved_bits_set_on_mount [OF v] v
  have "\<exists>v. minix_fill_super clean_v1_host blank_sb = Inr v \<and> reserved_bits_set v"
    by blast
  then show ?thesis by (simp add: minix_test_bit_def zero_bitmap_def)
qed

text \<open>
  \<open>minix_remount\<close> keeps the two bits: it touches the superblock buffer and the mount
  state only.
\<close>

lemma remount_keeps_reserved_bits:
  assumes "reserved_bits_set (sync_filesystem h sb)"
    and "minix_remount h sb flags = Some (r, sb')"
  shows "reserved_bits_set sb'"
proof -
  let ?sb1 = "sync_filesystem h sb"
  from assms(1) obtain sbi where sbi: "s_fs_info ?sb1 = Some sbi"
    by (cases "s_fs_info ?sb1") (simp_all add: reserved_bits_set_def)
  have keep: "reserved_bits_set (?sb1\<lparr>s_fs_info := Some sbi'\<rparr>)"
    if "s_map sbi' = s_map sbi" "s_imap_blocks sbi' = s_imap_blocks sbi" for sbi'
    using assms(1) sbi that by (simp add: reserved_bits_set_def s_imap_def s_zmap_def)
  have m: "s_map (dirty_sbh x) = s_map x" "s_imap_blocks (dirty_sbh x) = s_imap_blocks x"
    "s_map (set_s_state v x) = s_map x" "s_imap_blocks (set_s_state v x) = s_imap_blocks x"
    for x v
    by (simp_all add: dirty_sbh_def set_s_state_def)
  from assms(2) sbi have
    "sb' = ?sb1 \<or> (\<exists>sbi'. sb' = ?sb1\<lparr>s_fs_info := Some sbi'\<rparr>
                      \<and> s_map sbi' = s_map sbi \<and> s_imap_blocks sbi' = s_imap_blocks sbi)"
    by (auto simp: minix_remount_def Let_def m split: if_splits)
  then show ?thesis using assms(1) keep by auto
qed

section \<open>Facts about reading an inode\<close>

lemma copy_zones_Suc:
  "copy_zones (Suc n) src dst = (copy_zones n src dst)[n := src ! n]"
  by (simp add: copy_zones_def)

lemma length_copy_zones [simp]: "length (copy_zones n src dst) = length dst"
  by (induction n) (simp_all add: copy_zones_Suc, simp add: copy_zones_def)

lemma copy_zones_nth:
  "n \<le> length dst \<Longrightarrow> i < n \<Longrightarrow> copy_zones n src dst ! i = src ! i"
proof (induction n)
  case 0
  then show ?case by simp
next
  case (Suc n)
  then show ?case
    by (cases "i = n") (simp_all add: copy_zones_Suc)
qed

lemma take_copy_zones:
  assumes "n \<le> length src" and "n \<le> length dst"
  shows "take n (copy_zones n src dst) = take n src"
proof (rule nth_equalityI)
  show "length (take n (copy_zones n src dst)) = length (take n src)"
    using assms by simp
next
  fix i assume "i < length (take n (copy_zones n src dst))"
  then have "i < n" by simp
  then show "take n (copy_zones n src dst) ! i = take n src ! i"
    using assms(2) by (simp add: copy_zones_nth)
qed

lemma minix_set_inode_fields [simp]:
  "i1_data (minix_set_inode i d) = i1_data i" "i2_data (minix_set_inode i d) = i2_data i"
  "i_mode (minix_set_inode i d) = i_mode i" "i_uid (minix_set_inode i d) = i_uid i"
  "i_gid (minix_set_inode i d) = i_gid i" "i_size (minix_set_inode i d) = i_size i"
  "i_nlink (minix_set_inode i d) = i_nlink i" "i_mtime (minix_set_inode i d) = i_mtime i"
  "i_atime (minix_set_inode i d) = i_atime i" "i_ctime (minix_set_inode i d) = i_ctime i"
  by (simp_all add: minix_set_inode_def init_special_inode_def)

lemma V1_minix_iget_populates:
  assumes "minix_V1_raw_inode h (i_ino inode) = Some bh"
    and "length (r1_i_zone (b_data bh)) = 9" and "length (i1_data inode) = 16"
  shows "populated_v1 (b_data bh) (V1_minix_iget h inode)"
  using assms
  by (simp add: V1_minix_iget_def populated_v1_def Let_def unlock_new_inode_def
        take_copy_zones unat_ucast_up)

lemma V2_minix_iget_populates:
  assumes "minix_V2_raw_inode h (i_ino inode) = Some bh"
    and "length (r2_i_zone (b_data bh)) = 10" and "length (i2_data inode) = 16"
  shows "populated_v2 (b_data bh) (V2_minix_iget h inode)"
  using assms
  by (simp add: V2_minix_iget_def populated_v2_def Let_def unlock_new_inode_def
        take_copy_zones unat_ucast_up)

section \<open>Inode population\<close>

text \<open>
  Claim C4. A new inode handed out by \<open>iget_locked\<close> is populated by version. On a V1
  volume: when the raw record cannot be read the result is \<open>-EIO\<close>; otherwise the inode
  holds the nine zone words, the mode, owner, size and link count of the record, and its
  one time in \<open>i_mtime\<close>, \<open>i_atime\<close> and \<open>i_ctime\<close> with zero nanoseconds. On a V2 or
  V3 volume likewise, with ten zone words and the three times of the record.
\<close>

theorem inode_population:
  assumes "iget_locked h ino = iget_found inode" and "I_NEW inode"
    and "length (i1_data inode) = 16" and "length (i2_data inode) = 16"
  shows "(s_version sbi = MINIX_V1 \<longrightarrow>
            (case minix_V1_raw_inode h (i_ino inode) of
               None \<Rightarrow> minix_iget h sbi ino = Inl (- EIO)
             | Some bh \<Rightarrow>
                 length (r1_i_zone (b_data bh)) = 9 \<longrightarrow>
                 populated_v1 (b_data bh) (minix_iget h sbi ino)))
       \<and> (s_version sbi = MINIX_V2 \<or> s_version sbi = MINIX_V3 \<longrightarrow>
            (case minix_V2_raw_inode h (i_ino inode) of
               None \<Rightarrow> minix_iget h sbi ino = Inl (- EIO)
             | Some bh \<Rightarrow>
                 length (r2_i_zone (b_data bh)) = 10 \<longrightarrow>
                 populated_v2 (b_data bh) (minix_iget h sbi ino)))"
proof (intro conjI impI)
  assume v: "s_version sbi = MINIX_V1"
  then have d: "minix_iget h sbi ino = V1_minix_iget h inode"
    using assms(1,2) by (simp add: minix_iget_def)
  show "case minix_V1_raw_inode h (i_ino inode) of
               None \<Rightarrow> minix_iget h sbi ino = Inl (- EIO)
             | Some bh \<Rightarrow>
                 length (r1_i_zone (b_data bh)) = 9 \<longrightarrow>
                 populated_v1 (b_data bh) (minix_iget h sbi ino)"
  proof (cases "minix_V1_raw_inode h (i_ino inode)")
    case None
    then show ?thesis by (simp add: d V1_minix_iget_def)
  next
    case (Some bh)
    then show ?thesis
      using V1_minix_iget_populates [OF Some _ assms(3)] by (simp add: d)
  qed
next
  assume "s_version sbi = MINIX_V2 \<or> s_version sbi = MINIX_V3"
  then have "s_version sbi \<noteq> MINIX_V1"
    by (auto simp: MINIX_V1_def MINIX_V2_def MINIX_V3_def)
  then have d: "minix_iget h sbi ino = V2_minix_iget h inode"
    using assms(1,2) by (simp add: minix_iget_def)
  show "case minix_V2_raw_inode h (i_ino inode) of
               None \<Rightarrow> minix_iget h sbi ino = Inl (- EIO)
             | Some bh \<Rightarrow>
                 length (r2_i_zone (b_data bh)) = 10 \<longrightarrow>
                 populated_v2 (b_data bh) (minix_iget h sbi ino)"
  proof (cases "minix_V2_raw_inode h (i_ino inode)")
    case None
    then show ?thesis by (simp add: d V2_minix_iget_def)
  next
    case (Some bh)
    then show ?thesis
      using V2_minix_iget_populates [OF Some _ assms(4)] by (simp add: d)
  qed
qed

lemma disk_host_iget:
  "iget_locked (disk_host sb1) ino = iget_found (fresh_inode ino)"
  "I_NEW (fresh_inode ino)" "i_ino (fresh_inode ino) = ino"
  "length (i1_data (fresh_inode ino)) = 16" "length (i2_data (fresh_inode ino)) = 16"
  by (simp_all add: disk_host_def quiet_host_def fresh_inode_def)

theorem inode_population_witness:
  "populated_v1 (b_data root_raw)
     (minix_iget (disk_host clean_v1_super)
        ((sbi_of_ms clean_v1_super)\<lparr>s_version := MINIX_V1\<rparr>) 1)
   \<and> populated_v2 (b_data root_raw2)
       (minix_iget (disk_host clean_v1_super)
          ((sbi_of_ms clean_v1_super)\<lparr>s_version := MINIX_V3\<rparr>) 1)
   \<and> minix_iget (disk_host clean_v1_super)
        ((sbi_of_ms clean_v1_super)\<lparr>s_version := MINIX_V1\<rparr>) 2 = Inl (- EIO)"
proof -
  let ?h = "disk_host clean_v1_super"
  let ?v1 = "(sbi_of_ms clean_v1_super)\<lparr>s_version := MINIX_V1\<rparr>"
  let ?v3 = "(sbi_of_ms clean_v1_super)\<lparr>s_version := MINIX_V3\<rparr>"
  have raw: "minix_V1_raw_inode ?h 1 = Some root_raw" "minix_V2_raw_inode ?h 1 = Some root_raw2"
    "minix_V1_raw_inode ?h 2 = None"
    "length (r1_i_zone (b_data root_raw)) = 9" "length (r2_i_zone (b_data root_raw2)) = 10"
    by (simp_all add: disk_host_def quiet_host_def root_raw_def root_raw2_def)
  from inode_population [where sbi = "?v1", OF disk_host_iget(1,2,4,5), of clean_v1_super 1] raw
  have a: "populated_v1 (b_data root_raw) (minix_iget ?h ?v1 1)"
    by (simp add: disk_host_iget)
  from inode_population [where sbi = "?v3", OF disk_host_iget(1,2,4,5), of clean_v1_super 1] raw
  have b: "populated_v2 (b_data root_raw2) (minix_iget ?h ?v3 1)"
    by (simp add: disk_host_iget)
  from inode_population [where sbi = "?v1", OF disk_host_iget(1,2,4,5), of clean_v1_super 2] raw
  have c: "minix_iget ?h ?v1 2 = Inl (- EIO)"
    by (simp add: disk_host_iget)
  from a b c show ?thesis by simp
qed

section \<open>Facts about writing an inode back\<close>

lemma V1_update_None:
  "minix_V1_raw_inode h (i_ino inode) = None \<Longrightarrow> V1_minix_update_inode h inode = None"
  by (simp add: V1_minix_update_inode_def)

lemma V2_update_None:
  "minix_V2_raw_inode h (i_ino inode) = None \<Longrightarrow> V2_minix_update_inode h inode = None"
  by (simp add: V2_minix_update_inode_def)

lemma V1_update_Some:
  assumes "minix_V1_raw_inode h (i_ino inode) = Some bh0"
    and "length (r1_i_zone (b_data bh0)) = 9" and "length (i1_data inode) = 16"
  shows "\<exists>bh. V1_minix_update_inode h inode = Some bh
          \<and> b_state bh = (b_state bh0)\<lparr>BH_Dirty := True\<rparr>
          \<and> written_v1 h inode (b_data bh)"
proof -
  have t: "copy_zones 9 (i1_data inode) (r1_i_zone (b_data bh0)) = take 9 (i1_data inode)"
    using take_copy_zones [of 9 "i1_data inode" "r1_i_zone (b_data bh0)"] assms(2,3)
    by simp
  have z: "r1_i_zone (b_data bh0) \<noteq> []" using assms(2) by auto
  show ?thesis
    using assms(1) z
    by (simp add: V1_minix_update_inode_def Let_def mark_buffer_dirty_def written_v1_def t
          nth_list_update_eq)
qed

lemma V2_update_Some:
  assumes "minix_V2_raw_inode h (i_ino inode) = Some bh0"
    and "length (r2_i_zone (b_data bh0)) = 10" and "length (i2_data inode) = 16"
  shows "\<exists>bh. V2_minix_update_inode h inode = Some bh
          \<and> b_state bh = (b_state bh0)\<lparr>BH_Dirty := True\<rparr>
          \<and> written_v2 h inode (b_data bh)"
proof -
  have t: "copy_zones 10 (i2_data inode) (r2_i_zone (b_data bh0)) = take 10 (i2_data inode)"
    using take_copy_zones [of 10 "i2_data inode" "r2_i_zone (b_data bh0)"] assms(2,3)
    by simp
  have z: "r2_i_zone (b_data bh0) \<noteq> []" using assms(2) by auto
  show ?thesis
    using assms(1) z
    by (simp add: V2_minix_update_inode_def Let_def mark_buffer_dirty_def written_v2_def t
          nth_list_update_eq)
qed

lemma sync_inode_buffer_flushed:
  assumes "b_state bh = st0\<lparr>BH_Dirty := True\<rparr>"
    and "sync_inode_buffer h sb inode wbc bh = (err, msgs, bh')"
  shows "flushed h sb inode wbc st0 err msgs (b_state bh') \<and> b_data bh' = b_data bh"
  using assms
  by (auto simp: sync_inode_buffer_def flushed_def buffer_dirty_def buffer_req_def
        buffer_uptodate_def io_error_message_def Let_def split: if_splits)

section \<open>Inode write-back\<close>

text \<open>
  Claim C5. When the raw record cannot be read, \<open>minix_write_inode\<close> returns \<open>-EIO\<close>
  and no buffer is written. Otherwise it gives back a buffer that holds the raw record of
  the inode and that was marked dirty. With \<open>WB_SYNC_ALL\<close> the dirty buffer goes through
  \<open>sync_dirty_buffer\<close>; if it then carries a request and is not up to date the result is
  \<open>-EIO\<close> and the message names the volume (\<open>s_id\<close>) and the inode number; if not, and
  without \<open>WB_SYNC_ALL\<close>, the result is 0 and nothing is printed.
\<close>

theorem inode_write_back:
  assumes "raw_arrays_ok h sbi inode"
  shows "case raw_inode_read h sbi inode of
           None \<Rightarrow> minix_write_inode h sb sbi inode wbc = (- EIO, [], None)
         | Some st0 \<Rightarrow>
             (case minix_write_inode h sb sbi inode wbc of
                (err, msgs, None) \<Rightarrow> False
              | (err, msgs, Some rb) \<Rightarrow>
                  raw_written h inode rb
                  \<and> flushed h sb inode wbc st0 err msgs (raw_state rb))"
proof (cases "s_version sbi = MINIX_V1")
  case True
  show ?thesis
  proof (cases "minix_V1_raw_inode h (i_ino inode)")
    case None
    then show ?thesis
      using True by (simp add: raw_inode_read_def minix_write_inode_def V1_update_None)
  next
    case (Some bh0)
    with assms have len: "length (r1_i_zone (b_data bh0)) = 9" "length (i1_data inode) = 16"
      by (simp_all add: raw_arrays_ok_def)
    from V1_update_Some [OF Some len] obtain bh where
      u: "V1_minix_update_inode h inode = Some bh" and
      st: "b_state bh = (b_state bh0)\<lparr>BH_Dirty := True\<rparr>" and
      w: "written_v1 h inode (b_data bh)" by blast
    obtain err msgs bh' where s: "sync_inode_buffer h sb inode wbc bh = (err, msgs, bh')"
      by (cases "sync_inode_buffer h sb inode wbc bh") auto
    from sync_inode_buffer_flushed [OF st s] w
    have "flushed h sb inode wbc (b_state bh0) err msgs (b_state bh')"
      "written_v1 h inode (b_data bh')" by simp_all
    then show ?thesis
      using True Some u s
      by (simp add: raw_inode_read_def minix_write_inode_def raw_written_def raw_state_def)
  qed
next
  case False
  show ?thesis
  proof (cases "minix_V2_raw_inode h (i_ino inode)")
    case None
    then show ?thesis
      using False by (simp add: raw_inode_read_def minix_write_inode_def V2_update_None)
  next
    case (Some bh0)
    with assms have len: "length (r2_i_zone (b_data bh0)) = 10" "length (i2_data inode) = 16"
      by (simp_all add: raw_arrays_ok_def)
    from V2_update_Some [OF Some len] obtain bh where
      u: "V2_minix_update_inode h inode = Some bh" and
      st: "b_state bh = (b_state bh0)\<lparr>BH_Dirty := True\<rparr>" and
      w: "written_v2 h inode (b_data bh)" by blast
    obtain err msgs bh' where s: "sync_inode_buffer h sb inode wbc bh = (err, msgs, bh')"
      by (cases "sync_inode_buffer h sb inode wbc bh") auto
    from sync_inode_buffer_flushed [OF st s] w
    have "flushed h sb inode wbc (b_state bh0) err msgs (b_state bh')"
      "written_v2 h inode (b_data bh')" by simp_all
    then show ?thesis
      using False Some u s
      by (simp add: raw_inode_read_def minix_write_inode_def raw_written_def raw_state_def)
  qed
qed

theorem inode_write_back_witness:
  "raw_arrays_ok failing_write_host clean_v1_sbi (fresh_inode 1)
   \<and> (case minix_write_inode failing_write_host blank_sb clean_v1_sbi (fresh_inode 1)
              \<lparr>sync_mode = WB_SYNC_ALL\<rparr> of
         (err, msgs, rb) \<Rightarrow>
           err = - EIO
           \<and> msgs = [(''IO error syncing minix inode [%s:%08lx]'' @ [CHR 0x0A],
                      [arg_s ''loop0'', arg_lx 1])]
           \<and> map_option raw_state rb
               = Some \<lparr>BH_Dirty = False, BH_Req = True, BH_Uptodate = False\<rparr>)
   \<and> minix_write_inode failing_write_host blank_sb clean_v1_sbi (fresh_inode 2)
        \<lparr>sync_mode = WB_SYNC_ALL\<rparr> = (- EIO, [], None)"
proof -
  let ?h = failing_write_host and ?wbc = "\<lparr>sync_mode = WB_SYNC_ALL\<rparr>"
  have ok: "raw_arrays_ok ?h clean_v1_sbi (fresh_inode 1)"
    "raw_arrays_ok ?h clean_v1_sbi (fresh_inode 2)"
    by (simp_all add: raw_arrays_ok_def failing_write_host_def disk_host_def quiet_host_def
          fresh_inode_def root_raw_def root_raw2_def)
  have rd: "raw_inode_read ?h clean_v1_sbi (fresh_inode 1) = Some clean_state"
    "raw_inode_read ?h clean_v1_sbi (fresh_inode 2) = None"
    by (simp_all add: raw_inode_read_def failing_write_host_def disk_host_def quiet_host_def
          fresh_inode_def root_raw_def clean_v1_sbi_def)
  have sy: "sync_dirty_buffer ?h (clean_state\<lparr>BH_Dirty := True\<rparr>)
            = \<lparr>BH_Dirty = False, BH_Req = True, BH_Uptodate = False\<rparr>"
    by (simp add: failing_write_host_def clean_state_def)
  from inode_write_back [OF ok(1), of blank_sb ?wbc] rd(1) sy
  have a: "case minix_write_inode ?h blank_sb clean_v1_sbi (fresh_inode 1) ?wbc of
         (err, msgs, rb) \<Rightarrow>
           err = - EIO
           \<and> msgs = [(''IO error syncing minix inode [%s:%08lx]'' @ [CHR 0x0A],
                      [arg_s ''loop0'', arg_lx 1])]
           \<and> map_option raw_state rb
               = Some \<lparr>BH_Dirty = False, BH_Req = True, BH_Uptodate = False\<rparr>"
    by (auto simp: flushed_def io_error_message_def blank_sb_def fresh_inode_def
          split: prod.splits option.splits)
  from inode_write_back [OF ok(2), of blank_sb ?wbc] rd(2)
  have b: "minix_write_inode ?h blank_sb clean_v1_sbi (fresh_inode 2) ?wbc = (- EIO, [], None)"
    by simp
  from ok(1) a b show ?thesis by simp
qed

section \<open>Facts about remount\<close>

lemma s_ms_dirty_sbh [simp]: "s_ms (dirty_sbh sbi) = s_ms sbi"
  by (simp add: s_ms_def dirty_sbh_def mark_buffer_dirty_def)

lemma s_ms_set_s_state [simp]: "ms_s_state (s_ms (set_s_state v sbi)) = v"
  by (simp add: s_ms_def set_s_state_def)

lemma buffer_dirty_dirty_sbh [simp]: "buffer_dirty (s_sbh (dirty_sbh sbi))"
  by (simp add: dirty_sbh_def mark_buffer_dirty_def buffer_dirty_def)

lemma s_mount_state_dirty_sbh [simp]: "s_mount_state (dirty_sbh sbi) = s_mount_state sbi"
  by (simp add: dirty_sbh_def)

lemma s_mount_state_set_s_state [simp]:
  "s_mount_state (set_s_state v sbi) = s_mount_state sbi"
  by (simp add: set_s_state_def)

lemma s_ms_s_mount_state [simp]: "s_ms (sbi\<lparr>s_mount_state := v\<rparr>) = s_ms sbi"
  by (simp add: s_ms_def)

section \<open>The remount transitions\<close>

text \<open>
  Claim C6. \<open>minix_remount\<close> first syncs the filesystem; \<open>sb1\<close> is the volume after
  that. A remount to the mode the volume has returns 0 and leaves \<open>sb1\<close> as it is. From
  read-write to read-only: if the state on disk has VALID or the mount state in memory
  lacks it, 0 is returned and nothing is written; otherwise, for V1 and V2, the mount
  state goes to the state field on disk and the superblock buffer is dirtied (for V3 the
  buffer is dirtied and no field changes). From read-only to read-write: for V1 and V2
  the state on disk is copied to memory, VALID is then cleared on disk and the buffer is
  dirtied; for V3 the mount state in memory becomes VALID.
\<close>

theorem remount_transitions:
  fixes sb :: super_block and flags :: u32
  assumes "s_fs_info (sync_filesystem h sb) = Some sbi"
  defines "sb1 \<equiv> sync_filesystem h sb"
    and "ro \<equiv> flags AND SB_RDONLY \<noteq> 0"
    and "disk_valid \<equiv> ms_s_state (s_ms sbi) AND MINIX_VALID_FS \<noteq> 0"
    and "mem_valid \<equiv> s_mount_state sbi AND MINIX_VALID_FS \<noteq> 0"
  shows "(ro = sb_rdonly sb1 \<longrightarrow> minix_remount h sb flags = Some (0, sb1))
       \<and> (ro \<and> \<not> sb_rdonly sb1 \<and> (disk_valid \<or> \<not> mem_valid) \<longrightarrow>
            minix_remount h sb flags = Some (0, sb1))
       \<and> (ro \<and> \<not> sb_rdonly sb1 \<and> \<not> disk_valid \<and> mem_valid
            \<and> s_version sbi \<noteq> MINIX_V3 \<longrightarrow>
            (\<exists>sbi'. minix_remount h sb flags = Some (0, sb1\<lparr>s_fs_info := Some sbi'\<rparr>)
               \<and> ms_s_state (s_ms sbi') = s_mount_state sbi
               \<and> s_mount_state sbi' = s_mount_state sbi
               \<and> buffer_dirty (s_sbh sbi')))
       \<and> (ro \<and> \<not> sb_rdonly sb1 \<and> \<not> disk_valid \<and> mem_valid
            \<and> s_version sbi = MINIX_V3 \<longrightarrow>
            (\<exists>sbi'. minix_remount h sb flags = Some (0, sb1\<lparr>s_fs_info := Some sbi'\<rparr>)
               \<and> s_ms sbi' = s_ms sbi
               \<and> s_mount_state sbi' = s_mount_state sbi
               \<and> buffer_dirty (s_sbh sbi')))
       \<and> (\<not> ro \<and> sb_rdonly sb1 \<and> s_version sbi \<noteq> MINIX_V3 \<longrightarrow>
            (\<exists>sbi'. minix_remount h sb flags = Some (0, sb1\<lparr>s_fs_info := Some sbi'\<rparr>)
               \<and> s_mount_state sbi' = ms_s_state (s_ms sbi)
               \<and> ms_s_state (s_ms sbi') = ms_s_state (s_ms sbi) AND NOT MINIX_VALID_FS
               \<and> buffer_dirty (s_sbh sbi')))
       \<and> (\<not> ro \<and> sb_rdonly sb1 \<and> s_version sbi = MINIX_V3 \<longrightarrow>
            (\<exists>sbi'. minix_remount h sb flags = Some (0, sb1\<lparr>s_fs_info := Some sbi'\<rparr>)
               \<and> s_mount_state sbi' = MINIX_VALID_FS
               \<and> s_ms sbi' = s_ms sbi
               \<and> buffer_dirty (s_sbh sbi')))"
proof (intro conjI impI)
  assume "ro = sb_rdonly sb1"
  then show "minix_remount h sb flags = Some (0, sb1)"
    using assms(1) by (simp add: minix_remount_def Let_def sb1_def ro_def)
next
  assume "ro \<and> \<not> sb_rdonly sb1 \<and> (disk_valid \<or> \<not> mem_valid)"
  then show "minix_remount h sb flags = Some (0, sb1)"
    using assms(1)
    by (auto simp: minix_remount_def Let_def sb1_def ro_def disk_valid_def mem_valid_def)
next
  assume a: "ro \<and> \<not> sb_rdonly sb1 \<and> \<not> disk_valid \<and> mem_valid \<and> s_version sbi \<noteq> MINIX_V3"
  let ?sbi' = "dirty_sbh (set_s_state (s_mount_state sbi) sbi)"
  have "minix_remount h sb flags = Some (0, sb1\<lparr>s_fs_info := Some ?sbi'\<rparr>)"
    using assms(1) a
    by (simp add: minix_remount_def Let_def sb1_def ro_def disk_valid_def mem_valid_def)
  then show "\<exists>sbi'. minix_remount h sb flags = Some (0, sb1\<lparr>s_fs_info := Some sbi'\<rparr>)
               \<and> ms_s_state (s_ms sbi') = s_mount_state sbi
               \<and> s_mount_state sbi' = s_mount_state sbi
               \<and> buffer_dirty (s_sbh sbi')"
    by (intro exI [of _ ?sbi']) simp
next
  assume a: "ro \<and> \<not> sb_rdonly sb1 \<and> \<not> disk_valid \<and> mem_valid \<and> s_version sbi = MINIX_V3"
  let ?sbi' = "dirty_sbh sbi"
  have "minix_remount h sb flags = Some (0, sb1\<lparr>s_fs_info := Some ?sbi'\<rparr>)"
    using assms(1) a
    by (simp add: minix_remount_def Let_def sb1_def ro_def disk_valid_def mem_valid_def)
  then show "\<exists>sbi'. minix_remount h sb flags = Some (0, sb1\<lparr>s_fs_info := Some sbi'\<rparr>)
               \<and> s_ms sbi' = s_ms sbi
               \<and> s_mount_state sbi' = s_mount_state sbi
               \<and> buffer_dirty (s_sbh sbi')"
    by (intro exI [of _ ?sbi']) simp
next
  assume a: "\<not> ro \<and> sb_rdonly sb1 \<and> s_version sbi \<noteq> MINIX_V3"
  let ?sbi' = "dirty_sbh (set_s_state (ms_s_state (s_ms sbi) AND NOT MINIX_VALID_FS)
                 (sbi\<lparr>s_mount_state := ms_s_state (s_ms sbi)\<rparr>))"
  have "minix_remount h sb flags = Some (0, sb1\<lparr>s_fs_info := Some ?sbi'\<rparr>)"
    using assms(1) a
    by (auto simp: minix_remount_def Let_def sb1_def ro_def)
  then show "\<exists>sbi'. minix_remount h sb flags = Some (0, sb1\<lparr>s_fs_info := Some sbi'\<rparr>)
               \<and> s_mount_state sbi' = ms_s_state (s_ms sbi)
               \<and> ms_s_state (s_ms sbi') = ms_s_state (s_ms sbi) AND NOT MINIX_VALID_FS
               \<and> buffer_dirty (s_sbh sbi')"
    by (intro exI [of _ ?sbi']) simp
next
  assume a: "\<not> ro \<and> sb_rdonly sb1 \<and> s_version sbi = MINIX_V3"
  let ?sbi' = "dirty_sbh (sbi\<lparr>s_mount_state := MINIX_VALID_FS\<rparr>)"
  have "minix_remount h sb flags = Some (0, sb1\<lparr>s_fs_info := Some ?sbi'\<rparr>)"
    using assms(1) a
    by (auto simp: minix_remount_def Let_def sb1_def ro_def)
  then show "\<exists>sbi'. minix_remount h sb flags = Some (0, sb1\<lparr>s_fs_info := Some sbi'\<rparr>)
               \<and> s_mount_state sbi' = MINIX_VALID_FS
               \<and> s_ms sbi' = s_ms sbi
               \<and> buffer_dirty (s_sbh sbi')"
    by (intro exI [of _ ?sbi']) simp
qed

theorem remount_transitions_witness:
  "s_fs_info (sync_filesystem quiet_host ro_v1_volume) = Some clean_v1_sbi
   \<and> ms_s_state (s_ms clean_v1_sbi) = MINIX_VALID_FS
   \<and> (case minix_remount quiet_host ro_v1_volume 0 of
         None \<Rightarrow> False
       | Some (r, sb') \<Rightarrow>
           r = 0
           \<and> (case s_fs_info sb' of
                 None \<Rightarrow> False
               | Some sbi' \<Rightarrow>
                   s_mount_state sbi' = MINIX_VALID_FS \<and> ms_s_state (s_ms sbi') = 0
                   \<and> buffer_dirty (s_sbh sbi')))"
proof -
  have vol: "s_fs_info (sync_filesystem quiet_host ro_v1_volume) = Some clean_v1_sbi"
    by (simp add: quiet_host_def ro_v1_volume_def)
  have st: "ms_s_state (s_ms clean_v1_sbi) = MINIX_VALID_FS"
    by (simp add: s_ms_def clean_v1_sbi_def sbi_of_ms_def Let_def clean_v1_super_def block1_def m3s_of_bytes_def
          clean_v1_ms_def MINIX_VALID_FS_def)
  have pre: "\<not> ((0 :: u32) AND SB_RDONLY \<noteq> 0)"
    "sb_rdonly (sync_filesystem quiet_host ro_v1_volume)"
    "s_version clean_v1_sbi \<noteq> MINIX_V3"
    by (simp_all add: sb_rdonly_def quiet_host_def ro_v1_volume_def SB_RDONLY_def
          clean_v1_sbi_def MINIX_V1_def MINIX_V3_def)
  from remount_transitions [OF vol, of 0] pre obtain sbi' where
    "minix_remount quiet_host ro_v1_volume 0 =
       Some (0, (sync_filesystem quiet_host ro_v1_volume)\<lparr>s_fs_info := Some sbi'\<rparr>)"
    "s_mount_state sbi' = ms_s_state (s_ms clean_v1_sbi)"
    "ms_s_state (s_ms sbi') = ms_s_state (s_ms clean_v1_sbi) AND NOT MINIX_VALID_FS"
    "buffer_dirty (s_sbh sbi')"
    by blast
  with vol st show ?thesis by simp
qed

section \<open>Facts about statfs\<close>

lemma unat_push_bit_no_overflow:
  fixes w :: u64
  assumes "unat w * 2 ^ n < 2 ^ 64"
  shows "unat (push_bit n w) = unat w * 2 ^ n"
proof -
  have "unat (push_bit n w) = take_bit 64 (push_bit n (unat w))"
    by (simp add: unsigned_push_bit_eq)
  also have "\<dots> = push_bit n (unat w)"
    using assms by (simp add: take_bit_nat_eq_self push_bit_eq_mult)
  finally show ?thesis by (simp add: push_bit_eq_mult)
qed

lemma unat_sub_le:
  fixes a b :: u64
  assumes "unat b \<le> unat a"
  shows "unat (a - b) = unat a - unat b"
  using assms by (simp add: unat_sub word_le_nat_alt)

text \<open>
  Beyond the counts for which C defines the shift the total of blocks is the machine's:
  at a count of 64, where every bit would be shifted out, the host that takes the count
  modulo 64 reports the 61 zones of the clean volume unshifted.
\<close>

lemma statfs_shift_out_of_range:
  "minix_statfs quiet_host
     (ro_v1_volume\<lparr>s_fs_info := Some (clean_v1_sbi\<lparr>s_log_zone_size := 64\<rparr>)\<rparr>) = Some buf
   \<Longrightarrow> f_blocks buf = 61"
  by (auto simp: minix_statfs_def shl_ulong_def quiet_host_def Let_def clean_v1_sbi_def
        sbi_of_ms_def clean_v1_super_def block1_def clean_v1_ms_def)

section \<open>The statfs record\<close>

text \<open>
  Claim C9. On a mounted volume \<open>minix_statfs\<close> fills in: the magic of the volume, its
  block size, \<open>(s_nzones - s_firstdatazone) << s_log_zone_size\<close> as the total of blocks
  wherever C defines that shift, that is for \<open>s_log_zone_size\<close> below 64 (the product
  of the difference with the power of two whenever neither the subtraction nor the shift
  leaves 64 bits), the free zones counted from the bitmap as free and as available
  blocks, \<open>s_ninodes\<close> as the total of inodes, the free inodes counted from the bitmap,
  the name length of the version, and the two halves of the encoded device number as the
  filesystem id. For a shift count of 64 or more nothing is said of the total of blocks.
\<close>

theorem statfs_fields:
  assumes "s_fs_info sb = Some sbi"
  shows "case minix_statfs h sb of
           None \<Rightarrow> False
         | Some buf \<Rightarrow>
             f_type buf = s_magic sb
             \<and> f_bsize buf = of_nat (s_blocksize sb)
             \<and> (unat (s_log_zone_size sbi) < 64 \<longrightarrow>
                  f_blocks buf = push_bit (unat (s_log_zone_size sbi))
                                   (s_nzones sbi - s_firstdatazone sbi))
             \<and> (unat (s_log_zone_size sbi) < 64
                \<and> unat (s_firstdatazone sbi) \<le> unat (s_nzones sbi)
                \<and> (unat (s_nzones sbi) - unat (s_firstdatazone sbi))
                     * 2 ^ unat (s_log_zone_size sbi) < 2 ^ 64 \<longrightarrow>
                  unat (f_blocks buf) =
                    (unat (s_nzones sbi) - unat (s_firstdatazone sbi))
                      * 2 ^ unat (s_log_zone_size sbi))
             \<and> f_bfree buf = minix_count_free_blocks h sb
             \<and> f_bavail buf = f_bfree buf
             \<and> f_files buf = s_ninodes sbi
             \<and> f_ffree buf = minix_count_free_inodes h sb
             \<and> f_namelen buf = s_namelen sbi
             \<and> f_fsid buf = (ucast (huge_encode_dev h (s_dev sb)),
                             ucast (drop_bit 32 (huge_encode_dev h (s_dev sb))))"
proof -
  have n: "unat (s_firstdatazone sbi) \<le> unat (s_nzones sbi)
           \<and> (unat (s_nzones sbi) - unat (s_firstdatazone sbi))
                * 2 ^ unat (s_log_zone_size sbi) < 2 ^ 64 \<longrightarrow>
           unat (push_bit (unat (s_log_zone_size sbi)) (s_nzones sbi - s_firstdatazone sbi)) =
             (unat (s_nzones sbi) - unat (s_firstdatazone sbi))
               * 2 ^ unat (s_log_zone_size sbi)"
  proof (intro impI, elim conjE)
    assume le: "unat (s_firstdatazone sbi) \<le> unat (s_nzones sbi)"
      and b: "(unat (s_nzones sbi) - unat (s_firstdatazone sbi))
                * 2 ^ unat (s_log_zone_size sbi) < 2 ^ 64"
    have d: "unat (s_nzones sbi - s_firstdatazone sbi) =
             unat (s_nzones sbi) - unat (s_firstdatazone sbi)"
      by (rule unat_sub_le [OF le])
    from b have "unat (s_nzones sbi - s_firstdatazone sbi) * 2 ^ unat (s_log_zone_size sbi)
                 < 2 ^ 64" by (simp only: d)
    from unat_push_bit_no_overflow [OF this] d
    show "unat (push_bit (unat (s_log_zone_size sbi)) (s_nzones sbi - s_firstdatazone sbi)) =
             (unat (s_nzones sbi) - unat (s_firstdatazone sbi))
               * 2 ^ unat (s_log_zone_size sbi)" by simp
  qed
  show ?thesis
    using assms n by (simp add: minix_statfs_def shl_ulong_def Let_def)
qed

theorem statfs_fields_witness:
  "(\<exists>v. minix_fill_super clean_v1_host blank_sb = Inr v
       \<and> (case minix_statfs clean_v1_host v of
             None \<Rightarrow> False
           | Some buf \<Rightarrow>
               f_type buf = 0x137F \<and> f_bsize buf = 1024 \<and> f_files buf = 16
               \<and> f_blocks buf = 61 \<and> f_namelen buf = 14 \<and> f_bavail buf = f_bfree buf))
   \<and> (case minix_statfs quiet_host
              (ro_v1_volume\<lparr>s_fs_info := Some (clean_v1_sbi\<lparr>s_log_zone_size := 2\<rparr>)\<rparr>) of
         None \<Rightarrow> False
       | Some buf \<Rightarrow> f_blocks buf = 244 \<and> unat (f_blocks buf) = (64 - 3) * 2 ^ 2)"
proof -
  from clean_v1_mounts obtain v where v: "minix_fill_super clean_v1_host blank_sb = Inr v"
    by blast
  have magic: "ms_s_magic (as_ms (b_data clean_v1_super)) = MINIX_SUPER_MAGIC"
    by (simp add: clean_v1_super_def block1_def m3s_of_bytes_def clean_v1_ms_def MINIX_SUPER_MAGIC_def)
  from fill_super_volume [OF v] clean_v1_front(3)
    read_super_fields_v1_14 [OF magic, of clean_v1_host "blank_sb\<lparr>s_blocksize := BLOCK_SIZE\<rparr>"]
  obtain m sbh where
    info: "s_fs_info v = Some (clean_v1_sbi\<lparr>s_map := m, s_sbh := sbh\<rparr>)" and
    bs: "s_blocksize v = BLOCK_SIZE" and mg: "s_magic v = ucast MINIX_SUPER_MAGIC"
    by (auto simp: clean_v1_sbi_def)
  have f: "s_ninodes clean_v1_sbi = 16" "s_nzones clean_v1_sbi = 64"
    "s_firstdatazone clean_v1_sbi = 3" "s_log_zone_size clean_v1_sbi = 0"
    "s_namelen clean_v1_sbi = 14"
    by (simp_all add: clean_v1_sbi_def sbi_of_ms_def Let_def clean_v1_super_def block1_def m3s_of_bytes_def
          clean_v1_ms_def)
  from statfs_fields [OF info, of clean_v1_host] f bs mg
  have "case minix_statfs clean_v1_host v of
             None \<Rightarrow> False
           | Some buf \<Rightarrow>
               f_type buf = 0x137F \<and> f_bsize buf = 1024 \<and> f_files buf = 16
               \<and> f_blocks buf = 61 \<and> f_namelen buf = 14 \<and> f_bavail buf = f_bfree buf"
    by (auto simp: BLOCK_SIZE_def MINIX_SUPER_MAGIC_def split: option.splits)
  with v have first: "\<exists>v. minix_fill_super clean_v1_host blank_sb = Inr v
       \<and> (case minix_statfs clean_v1_host v of
             None \<Rightarrow> False
           | Some buf \<Rightarrow>
               f_type buf = 0x137F \<and> f_bsize buf = 1024 \<and> f_files buf = 16
               \<and> f_blocks buf = 61 \<and> f_namelen buf = 14 \<and> f_bavail buf = f_bfree buf)"
    by blast
  let ?sb = "ro_v1_volume\<lparr>s_fs_info := Some (clean_v1_sbi\<lparr>s_log_zone_size := 2\<rparr>)\<rparr>"
  have info2: "s_fs_info ?sb = Some (clean_v1_sbi\<lparr>s_log_zone_size := 2\<rparr>)"
    by simp
  from statfs_fields [OF info2, of quiet_host] f
  have second: "case minix_statfs quiet_host ?sb of
         None \<Rightarrow> False
       | Some buf \<Rightarrow> f_blocks buf = 244 \<and> unat (f_blocks buf) = (64 - 3) * 2 ^ 2"
    by (auto split: option.splits)
  from first second show ?thesis by simp
qed

section \<open>Facts about eviction\<close>

lemma minix_truncate_walker:
  assumes "S_ISREG (i_mode inode) \<or> S_ISDIR (i_mode inode) \<or> S_ISLNK (i_mode inode)"
  shows "minix_truncate sbi inode =
           [if s_version sbi = MINIX_V1 then V1_minix_truncate inode
            else V2_minix_truncate inode]"
  using assms by (simp add: minix_truncate_def)

lemma minix_truncate_special:
  assumes "\<not> (S_ISREG (i_mode inode) \<or> S_ISDIR (i_mode inode) \<or> S_ISLNK (i_mode inode))"
  shows "minix_truncate sbi inode = []"
  using assms by (simp add: minix_truncate_def)

lemma minix_evict_inode_unlinked:
  assumes "i_nlink inode = 0"
  shows "minix_evict_inode sbi inode =
           (inode\<lparr>i_size := 0\<rparr>,
            [truncate_inode_pages_final] @ minix_truncate sbi (inode\<lparr>i_size := 0\<rparr>)
              @ [invalidate_inode_buffers, clear_inode, minix_free_inode (inode\<lparr>i_size := 0\<rparr>)])"
  using assms by (simp add: minix_evict_inode_def Let_def)

lemma minix_evict_inode_linked:
  assumes "i_nlink inode \<noteq> 0"
  shows "minix_evict_inode sbi inode =
           (inode, [truncate_inode_pages_final, invalidate_inode_buffers, clear_inode])"
  using assms by (simp add: minix_evict_inode_def Let_def)

section \<open>The order of an eviction\<close>

text \<open>
  Claim C7. With no link left, \<open>minix_evict_inode\<close> sets the size to zero, then calls
  \<open>minix_truncate\<close> on the inode of size zero (for a regular file, a directory or a
  symlink that is the walker of the volume's version, which releases the zones), then
  invalidates the buffers of the file and clears the inode, then calls
  \<open>minix_free_inode\<close>, which clears the bit of the inode in the inode bitmap; all of it
  before the callback returns and the entry is dropped. With a link left neither
  \<open>minix_truncate\<close> nor \<open>minix_free_inode\<close> is called: the inode is written back if
  dirty, by the cache and not by the callback, and dropped. In both cases
  \<open>invalidate_inode_buffers\<close> is called.
\<close>

theorem eviction_order:
  "(i_nlink inode = 0 \<longrightarrow>
      minix_evict_inode sbi inode =
        (inode\<lparr>i_size := 0\<rparr>,
         [truncate_inode_pages_final] @ minix_truncate sbi (inode\<lparr>i_size := 0\<rparr>)
           @ [invalidate_inode_buffers, clear_inode, minix_free_inode (inode\<lparr>i_size := 0\<rparr>)])
      \<and> (S_ISREG (i_mode inode) \<or> S_ISDIR (i_mode inode) \<or> S_ISLNK (i_mode inode) \<longrightarrow>
           minix_truncate sbi (inode\<lparr>i_size := 0\<rparr>) =
             [if s_version sbi = MINIX_V1 then V1_minix_truncate (inode\<lparr>i_size := 0\<rparr>)
              else V2_minix_truncate (inode\<lparr>i_size := 0\<rparr>)])
      \<and> vfs_evict sbi dirty inode =
          (inode\<lparr>i_size := 0\<rparr>,
           [truncate_inode_pages_final] @ minix_truncate sbi (inode\<lparr>i_size := 0\<rparr>)
             @ [invalidate_inode_buffers, clear_inode, minix_free_inode (inode\<lparr>i_size := 0\<rparr>),
                drop_entry]))
   \<and> (i_nlink inode \<noteq> 0 \<longrightarrow>
      minix_evict_inode sbi inode =
        (inode, [truncate_inode_pages_final, invalidate_inode_buffers, clear_inode])
      \<and> vfs_evict sbi dirty inode =
          (inode, (if dirty then [write_inode] else [])
                  @ [truncate_inode_pages_final, invalidate_inode_buffers, clear_inode,
                     drop_entry]))
   \<and> invalidate_inode_buffers \<in> set (snd (minix_evict_inode sbi inode))"
proof (intro conjI impI)
  assume z: "i_nlink inode = 0"
  show "minix_evict_inode sbi inode =
        (inode\<lparr>i_size := 0\<rparr>,
         [truncate_inode_pages_final] @ minix_truncate sbi (inode\<lparr>i_size := 0\<rparr>)
           @ [invalidate_inode_buffers, clear_inode, minix_free_inode (inode\<lparr>i_size := 0\<rparr>)])"
    by (rule minix_evict_inode_unlinked [OF z])
  show "vfs_evict sbi dirty inode =
          (inode\<lparr>i_size := 0\<rparr>,
           [truncate_inode_pages_final] @ minix_truncate sbi (inode\<lparr>i_size := 0\<rparr>)
             @ [invalidate_inode_buffers, clear_inode, minix_free_inode (inode\<lparr>i_size := 0\<rparr>),
                drop_entry])"
    using z by (simp add: vfs_evict_def minix_evict_inode_unlinked [OF z])
next
  assume "i_nlink inode = 0"
    and "S_ISREG (i_mode inode) \<or> S_ISDIR (i_mode inode) \<or> S_ISLNK (i_mode inode)"
  then show "minix_truncate sbi (inode\<lparr>i_size := 0\<rparr>) =
             [if s_version sbi = MINIX_V1 then V1_minix_truncate (inode\<lparr>i_size := 0\<rparr>)
              else V2_minix_truncate (inode\<lparr>i_size := 0\<rparr>)]"
    by (simp add: minix_truncate_walker)
next
  assume nz: "i_nlink inode \<noteq> 0"
  show "minix_evict_inode sbi inode =
        (inode, [truncate_inode_pages_final, invalidate_inode_buffers, clear_inode])"
    by (rule minix_evict_inode_linked [OF nz])
  show "vfs_evict sbi dirty inode =
          (inode, (if dirty then [write_inode] else [])
                  @ [truncate_inode_pages_final, invalidate_inode_buffers, clear_inode,
                     drop_entry])"
    using nz by (simp add: vfs_evict_def minix_evict_inode_linked [OF nz])
next
  show "invalidate_inode_buffers \<in> set (snd (minix_evict_inode sbi inode))"
    by (cases "i_nlink inode = 0")
       (simp_all add: minix_evict_inode_unlinked minix_evict_inode_linked)
qed

theorem eviction_order_witness:
  "i_nlink unlinked_file = 0 \<and> S_ISREG (i_mode unlinked_file)
   \<and> vfs_evict clean_v1_sbi True unlinked_file =
       (unlinked_file\<lparr>i_size := 0\<rparr>,
        [truncate_inode_pages_final, V1_minix_truncate (unlinked_file\<lparr>i_size := 0\<rparr>),
         invalidate_inode_buffers, clear_inode, minix_free_inode (unlinked_file\<lparr>i_size := 0\<rparr>),
         drop_entry])
   \<and> i_nlink linked_dir = 2
   \<and> vfs_evict clean_v1_sbi True linked_dir =
       (linked_dir,
        [write_inode, truncate_inode_pages_final, invalidate_inode_buffers, clear_inode,
         drop_entry])"
proof -
  have u: "i_nlink unlinked_file = 0" "S_ISREG (i_mode unlinked_file)"
    by (simp_all add: unlinked_file_def S_ISREG_def S_IFMT_def)
  have l: "i_nlink linked_dir = 2" "i_nlink linked_dir \<noteq> 0"
    by (simp_all add: linked_dir_def)
  have v: "s_version clean_v1_sbi = MINIX_V1" by (simp add: clean_v1_sbi_def)
  from eviction_order [of unlinked_file clean_v1_sbi True] u v
  have a: "vfs_evict clean_v1_sbi True unlinked_file =
       (unlinked_file\<lparr>i_size := 0\<rparr>,
        [truncate_inode_pages_final, V1_minix_truncate (unlinked_file\<lparr>i_size := 0\<rparr>),
         invalidate_inode_buffers, clear_inode, minix_free_inode (unlinked_file\<lparr>i_size := 0\<rparr>),
         drop_entry])"
    by simp
  from eviction_order [of linked_dir clean_v1_sbi True] l
  have b: "vfs_evict clean_v1_sbi True linked_dir =
       (linked_dir,
        [write_inode, truncate_inode_pages_final, invalidate_inode_buffers, clear_inode,
         drop_entry])"
    by simp
  from u l(1) a b show ?thesis by simp
qed

section \<open>Module initialisation: the unwind after registration\<close>

lemma init_minix_fs_after_register:
  assumes "kmem_cache_create_ok h"
  shows "init_minix_fs h st =
           (register_filesystem_result h,
            destroy_inodecache (snd (register_filesystem h (st\<lparr>minix_inode_cachep := True\<rparr>))))"
  using assms
  by (simp add: init_minix_fs_def init_inodecache_def register_filesystem_def Let_def)

lemma init_minix_fs_no_clean_success:
  "\<not> (fst (init_minix_fs h st) = 0 \<and> minix_inode_cachep (snd (init_minix_fs h st)))"
  by (simp add: init_minix_fs_def init_inodecache_def register_filesystem_def Let_def
        destroy_inodecache_def ENOMEM_def)

text \<open>
  Claim C10. Once the inode cache exists, \<open>init_minix_fs\<close> calls
  \<open>register_filesystem\<close> and then runs the unwind whatever the call returned: it returns
  the result of the registration, the inode cache is destroyed, and the registration is
  in place exactly when it succeeded (or was in place before). So a successful
  registration returns 0 with the cache gone and the filesystem still registered.
\<close>

theorem init_minix_fs_unwinds_after_register:
  assumes "kmem_cache_create_ok h"
  shows "fst (init_minix_fs h st) = register_filesystem_result h
       \<and> \<not> minix_inode_cachep (snd (init_minix_fs h st))
       \<and> minix_fs_type_registered (snd (init_minix_fs h st)) =
           (if register_filesystem_result h = 0 then True else minix_fs_type_registered st)"
  by (simp add: init_minix_fs_after_register [OF assms] destroy_inodecache_def
        register_filesystem_def Let_def)

theorem init_minix_fs_unwinds_after_register_witness:
  "kmem_cache_create_ok quiet_host
   \<and> init_minix_fs quiet_host unloaded =
       (0, \<lparr>minix_inode_cachep = False, minix_fs_type_registered = True\<rparr>)"
proof -
  have k: "kmem_cache_create_ok quiet_host" by (simp add: quiet_host_def)
  have r: "register_filesystem_result quiet_host = 0" by (simp add: quiet_host_def)
  from init_minix_fs_unwinds_after_register [OF k, of unloaded] r
  have "fst (init_minix_fs quiet_host unloaded) = 0"
    and "\<not> minix_inode_cachep (snd (init_minix_fs quiet_host unloaded))"
    and "minix_fs_type_registered (snd (init_minix_fs quiet_host unloaded))"
    by simp_all
  then have "init_minix_fs quiet_host unloaded =
       (0, \<lparr>minix_inode_cachep = False, minix_fs_type_registered = True\<rparr>)"
    by (cases "init_minix_fs quiet_host unloaded") simp
  with k show ?thesis by simp
qed

end
